theory Spec2Isabelle
  imports Complex_Main "HOL-Library.AList"
begin

section \<open>Python values used by the analyzers\<close>

text \<open>
  The classification engine of the empathetic code reviewer is embedded function by
  function. Python names are kept, without the leading underscore of private methods
  (\<open>_analyze_patterns\<close> is \<open>analyze_patterns\<close>), and the two analyzers' methods both
  called \<open>_calculate_confidence\<close> carry their analyzer's name.

  Modelling choices:
  \<^item> a \<open>str\<close> is a \<open>string\<close> whose characters are the code points 0..255 (Latin-1);
  \<^item> a \<open>float\<close> is an exact rational (\<open>rat\<close>): rounding is not modelled, so a score
    of the model can differ from the program's double in the last place (\<open>1.2\<close> is \<open>6 / 5\<close>
    here). No statement below rests on two computed scores being exactly equal: what
    \<open>max\<close> selects is stated for every score map, whatever arithmetic produced it;
  \<^item> a \<open>dict\<close> is an association list in insertion order, since \<open>max(d, key=d.get)\<close>
    depends on that order; \<open>d[k] = v\<close> is \<open>AList.update k v d\<close>, which overwrites in
    place or appends;
  \<^item> an exception is a value \<open>Inl e\<close> of \<open>py_error + 'a\<close>.
\<close>

datatype py_error = ValueError string | ServiceError string

type_synonym ('k, 'v) dict = "('k \<times> 'v) list"

subsection \<open>\<open>str\<close> methods\<close>

definition upper_lower_table :: "(char \<times> char) list" where
  "upper_lower_table =
     zip ''ABCDEFGHIJKLMNOPQRSTUVWXYZ'' ''abcdefghijklmnopqrstuvwxyz'' @
     zip [CHR 0xC0, CHR 0xC1, CHR 0xC2, CHR 0xC3, CHR 0xC4, CHR 0xC5, CHR 0xC6, CHR 0xC7,
          CHR 0xC8, CHR 0xC9, CHR 0xCA, CHR 0xCB, CHR 0xCC, CHR 0xCD, CHR 0xCE, CHR 0xCF,
          CHR 0xD0, CHR 0xD1, CHR 0xD2, CHR 0xD3, CHR 0xD4, CHR 0xD5, CHR 0xD6,
          CHR 0xD8, CHR 0xD9, CHR 0xDA, CHR 0xDB, CHR 0xDC, CHR 0xDD, CHR 0xDE]
         [CHR 0xE0, CHR 0xE1, CHR 0xE2, CHR 0xE3, CHR 0xE4, CHR 0xE5, CHR 0xE6, CHR 0xE7,
          CHR 0xE8, CHR 0xE9, CHR 0xEA, CHR 0xEB, CHR 0xEC, CHR 0xED, CHR 0xEE, CHR 0xEF,
          CHR 0xF0, CHR 0xF1, CHR 0xF2, CHR 0xF3, CHR 0xF4, CHR 0xF5, CHR 0xF6,
          CHR 0xF8, CHR 0xF9, CHR 0xFA, CHR 0xFB, CHR 0xFC, CHR 0xFD, CHR 0xFE]"

definition lower_char :: "char \<Rightarrow> char" where
  "lower_char c = (case map_of upper_lower_table c of Some d \<Rightarrow> d | None \<Rightarrow> c)"

definition lower :: "string \<Rightarrow> string" where
  \<comment> \<open>\<open>s.lower()\<close>\<close>
  "lower s = map lower_char s"

definition whitespace :: "char list" where
  \<comment> \<open>the characters \<open>str.strip()\<close> removes: \<open>\t \n \v \f \r\<close>, 0x1C..0x1F, space, 0x85, 0xA0\<close>
  "whitespace = [CHR 0x09, CHR 0x0A, CHR 0x0B, CHR 0x0C, CHR 0x0D,
                 CHR 0x1C, CHR 0x1D, CHR 0x1E, CHR 0x1F, CHR 0x20, CHR 0x85, CHR 0xA0]"

definition isspace :: "char \<Rightarrow> bool" where
  "isspace c \<longleftrightarrow> c \<in> set whitespace"

definition strip :: "string \<Rightarrow> string" where
  \<comment> \<open>\<open>s.strip()\<close>\<close>
  "strip s = rev (dropWhile isspace (rev (dropWhile isspace s)))"

fun startswith :: "string \<Rightarrow> string \<Rightarrow> bool" where
  \<comment> \<open>\<open>s.startswith(p)\<close>\<close>
  "startswith s [] = True"
| "startswith [] (p # ps) = False"
| "startswith (c # cs) (p # ps) = (c = p \<and> startswith cs ps)"

definition endswith :: "string \<Rightarrow> string \<Rightarrow> bool" where
  \<comment> \<open>\<open>s.endswith(p)\<close>\<close>
  "endswith s p = startswith (rev s) (rev p)"

fun py_in :: "string \<Rightarrow> string \<Rightarrow> bool" where
  \<comment> \<open>\<open>sub in s\<close>\<close>
  "py_in sub [] = (sub = [])"
| "py_in sub (c # cs) = (startswith (c # cs) sub \<or> py_in sub cs)"

fun count_from :: "string \<Rightarrow> nat \<Rightarrow> string \<Rightarrow> nat" where
  \<comment> \<open>occurrences of a non-empty \<open>sub\<close>, scanning left to right; after a match the scan
      resumes behind it (\<open>skip\<close> characters are still covered by the last match)\<close>
  "count_from sub skip [] = 0"
| "count_from sub (Suc k) (c # cs) = count_from sub k cs"
| "count_from sub 0 (c # cs) =
     (if startswith (c # cs) sub then 1 + count_from sub (length sub - 1) cs
      else count_from sub 0 cs)"

definition py_count :: "string \<Rightarrow> string \<Rightarrow> nat" where
  \<comment> \<open>\<open>s.count(sub)\<close>: the number of non-overlapping occurrences\<close>
  "py_count s sub = (if sub = [] then length s + 1 else count_from sub 0 s)"

definition squote :: string where
  \<comment> \<open>the one-character string holding a single quote\<close>
  "squote = [CHR 0x27]"

subsection \<open>\<open>max\<close> over a dict\<close>

definition py_max :: "rat list \<Rightarrow> py_error + rat" where
  \<comment> \<open>\<open>max(values)\<close>\<close>
  "py_max vs = (case vs of [] \<Rightarrow> Inl (ValueError ''max() arg is an empty sequence'')
                | v # rest \<Rightarrow> Inr (foldl max v rest))"

fun first_max :: "'k \<times> rat \<Rightarrow> ('k, rat) dict \<Rightarrow> 'k \<times> rat" where
  \<comment> \<open>the running best of \<open>max\<close>: replaced only by a strictly larger key value\<close>
  "first_max best [] = best"
| "first_max best (kv # rest) = first_max (if snd best < snd kv then kv else best) rest"

definition py_max_key :: "('k, rat) dict \<Rightarrow> py_error + 'k" where
  \<comment> \<open>\<open>max(d, key=d.get)\<close>\<close>
  "py_max_key d = (case d of [] \<Rightarrow> Inl (ValueError ''max() arg is an empty sequence'')
                   | kv # rest \<Rightarrow> Inr (fst (first_max kv rest)))"

section \<open>LanguageDetector\<close>

record lang_config =
  l_patterns :: "string list"
  l_strong_indicators :: "string list"
  l_file_extensions :: "string list"

definition language_patterns :: "(string, lang_config) dict" where
  "language_patterns = [
     (''python'', \<lparr>
        l_patterns = [''def '', ''import '', ''from '', ''class '', '':'', ''__init__'', ''self.'',
                      ''elif'', ''True'', ''False'', ''None'', ''lambda'', ''print('', ''len(''],
        l_strong_indicators = [''def '', ''import '', ''__init__'', ''self.''],
        l_file_extensions = [''.py'', ''.pyw'']\<rparr>),
     (''javascript'', \<lparr>
        l_patterns = [''function'', ''const '', ''let '', ''var '', ''=>'', ''console.log'',
                      ''document.'', ''window.'', ''typeof'', ''undefined'', ''null'', ''==='', ''!==''],
        l_strong_indicators = [''function'', ''const '', ''let '', ''=>''],
        l_file_extensions = [''.js'', ''.mjs'']\<rparr>),
     (''typescript'', \<lparr>
        l_patterns = [''interface'', ''type '', '': string'', '': number'', '': boolean'',
                      ''implements'', ''extends'', ''generic'', ''namespace'', ''export ''],
        l_strong_indicators = [''interface'', '': string'', '': number'', ''implements''],
        l_file_extensions = [''.ts'', ''.tsx'']\<rparr>),
     (''java'', \<lparr>
        l_patterns = [''public class'', ''private '', ''protected '', ''public static void'',
                      ''import java.'', ''System.out.'', ''@Override'', ''throws'', ''extends''],
        l_strong_indicators = [''public class'', ''public static void'', ''import java.''],
        l_file_extensions = [''.java'']\<rparr>),
     (''cpp'', \<lparr>
        l_patterns = [''#include'', ''int main'', ''std::'', ''cout'', ''cin'', ''namespace'',
                      ''template'', ''class'', ''struct'', ''using namespace''],
        l_strong_indicators = [''#include'', ''int main'', ''std::'', ''using namespace''],
        l_file_extensions = [''.cpp'', ''.cc'', ''.cxx'', ''.h'', ''.hpp'']\<rparr>),
     (''csharp'', \<lparr>
        l_patterns = [''using System'', ''public class'', ''private '', ''public '',
                      ''Console.WriteLine'', ''string'', ''int'', ''bool'', ''namespace''],
        l_strong_indicators = [''using System'', ''Console.WriteLine'', ''namespace''],
        l_file_extensions = [''.cs'']\<rparr>),
     (''go'', \<lparr>
        l_patterns = [''package '', ''import ('', ''func '', ''var '', ''type '', ''struct'',
                      ''interface'', ''go '', ''defer'', ''chan''],
        l_strong_indicators = [''package '', ''func '', ''go '', ''defer''],
        l_file_extensions = [''.go'']\<rparr>),
     (''rust'', \<lparr>
        l_patterns = [''fn '', ''let '', ''mut '', ''struct'', ''enum'', ''impl'', ''trait'',
                      ''use '', ''mod '', ''pub '', ''match''],
        l_strong_indicators = [''fn '', ''let mut'', ''impl'', ''trait''],
        l_file_extensions = [''.rs'']\<rparr>)]"

definition language_raw_score :: "lang_config \<Rightarrow> string \<Rightarrow> rat" where
  \<comment> \<open>the inner loop of \<open>_analyze_patterns\<close>: the variable \<open>score\<close> after all patterns\<close>
  "language_raw_score config code_lower =
     foldl (\<lambda>score pattern.
              if py_in (lower pattern) code_lower
              then let weight = (if pattern \<in> set (l_strong_indicators config) then 2 else 1);
                       occurrences = py_count code_lower (lower pattern)
                   in score + weight * of_nat (min occurrences 3)
              else score)
           0 (l_patterns config)"

definition analyze_patterns :: "string \<Rightarrow> (string, rat) dict" where
  "analyze_patterns code_snippet =
     (let code_lower = lower code_snippet in
      foldl (\<lambda>language_scores (language, config).
               let score = language_raw_score config code_lower in
               if l_patterns config \<noteq> []
               then AList.update language (score / (of_nat (length (l_patterns config)) * 2))
                      language_scores
               else language_scores)
            [] language_patterns)"

definition detect_from_filename :: "string \<Rightarrow> string option" where
  \<comment> \<open>the first language, in table order, one of whose extensions ends the lower-cased name\<close>
  "detect_from_filename filename =
     (let filename_lower = lower filename in
      map_option fst
        (find (\<lambda>(language, config). list_ex (endswith filename_lower) (l_file_extensions config))
           language_patterns))"

definition language_final_scores :: "string \<Rightarrow> string option \<Rightarrow> (string, rat) dict" where
  \<comment> \<open>\<open>language_scores\<close> of \<open>detect_language\<close> after the filename boost (an exact product
      here, rounded to a double in the program)\<close>
  "language_final_scores code_snippet filename =
     (let lang_from_file = (case filename of
                              None \<Rightarrow> None
                            | Some f \<Rightarrow> if f \<noteq> [] then detect_from_filename f else None);
          language_scores = analyze_patterns code_snippet
      in case lang_from_file of
           None \<Rightarrow> language_scores
         | Some l \<Rightarrow> (case map_of language_scores l of
                        None \<Rightarrow> language_scores
                      | Some v \<Rightarrow> AList.update l (v * (3 / 2)) language_scores))"

definition select_language :: "(string, rat) dict \<Rightarrow> py_error + (string \<times> rat)" where
  \<comment> \<open>the last step of \<open>detect_language\<close> (find the best match), from \<open>language_scores\<close> on\<close>
  "select_language language_scores =
     (if language_scores = [] then Inr (''unknown'', 1 / 10)
      else case py_max (map snd language_scores) of
        Inl e \<Rightarrow> Inl e
      | Inr max_score \<Rightarrow>
          if max_score = 0 then Inr (''unknown'', 1 / 10)
          else case py_max_key language_scores of
            Inl e \<Rightarrow> Inl e
          | Inr best_language \<Rightarrow>
              (case map_of language_scores best_language of
                 None \<Rightarrow> Inl (ValueError ''KeyError'')
               | Some v \<Rightarrow> Inr (best_language, min v 1)))"

definition detect_language :: "string \<Rightarrow> string option \<Rightarrow> py_error + (string \<times> rat)" where
  "detect_language code_snippet filename =
     (if code_snippet = [] \<or> strip code_snippet = [] then Inr (''unknown'', 0)
      else select_language (language_final_scores code_snippet filename))"

section \<open>SentimentAnalyzer\<close>

datatype SeverityLevel = CRITICAL | HIGH | MEDIUM | LOW


definition SeverityLevel_of :: "string \<Rightarrow> py_error + SeverityLevel" where
  \<comment> \<open>\<open>SeverityLevel(value)\<close>: the member with that value, or a \<open>ValueError\<close> whose message
      shows the value as \<open>repr\<close> does (in single quotes, for a value without quotes or escapes)\<close>
  "SeverityLevel_of v =
     (if v = ''critical'' then Inr SeverityLevel.CRITICAL
      else if v = ''high'' then Inr SeverityLevel.HIGH
      else if v = ''medium'' then Inr SeverityLevel.MEDIUM
      else if v = ''low'' then Inr SeverityLevel.LOW
      else Inl (ValueError (squote @ v @ squote @ '' is not a valid SeverityLevel'')))"

record severity_config =
  s_patterns :: "string list"
  s_weight :: rat

definition severity_patterns :: "(string, severity_config) dict" where
  "severity_patterns = [
     (''critical'', \<lparr>
        s_patterns = [''terrible'', ''awful'', ''horrible'', ''disaster'', ''broken'',
                      ''completely wrong'', ''garbage'', ''trash'', ''useless'', ''stupid''],
        s_weight = 4\<rparr>),
     (''high'', \<lparr>
        s_patterns = [''bad'', ''wrong'', ''inefficient'', ''poor'', ''don't'', ''never'',
                      ''avoid'', ''terrible'', ''horrible'', ''ugly'', ''messy''],
        s_weight = 3\<rparr>),
     (''medium'', \<lparr>
        s_patterns = [''should'', ''better'', ''improve'', ''consider'', ''prefer'',
                      ''recommend'', ''change'', ''fix'', ''update'', ''modify''],
        s_weight = 2\<rparr>),
     (''low'', \<lparr>
        s_patterns = [''could'', ''might'', ''perhaps'', ''suggestion'', ''minor'',
                      ''optional'', ''nice to have'', ''consider'', ''maybe''],
        s_weight = 1\<rparr>)]"

definition positive_indicators :: "string list" where
  "positive_indicators = [''good'', ''nice'', ''great'', ''excellent'', ''well done'', ''solid'',
                          ''clean'', ''clear'', ''readable'', ''elegant'', ''smart'']"

definition intensity_modifiers :: "(string, rat) dict" where
  "intensity_modifiers = [(''very'', 3 / 2), (''extremely'', 2), (''really'', 13 / 10),
                          (''quite'', 6 / 5), (''somewhat'', 4 / 5), (''slightly'', 3 / 5),
                          (''a bit'', 7 / 10), (''kind of'', 4 / 5)]"

definition constructive_indicators :: "string list" where
  "constructive_indicators = [''suggest'', ''recommend'', ''consider'', ''perhaps'', ''maybe'',
                              ''what if'', ''how about'', ''you could'', ''try'', ''think about'']"

record analysis_details =
  d_severity_scores :: "(string, rat) dict"
  d_positive_indicators :: "string list"
  d_constructive_indicators :: "string list"
  d_intensity_modifiers :: "(string \<times> rat) list"
  d_overall_tone :: string

definition severity_raw_score :: "severity_config \<Rightarrow> string \<Rightarrow> rat" where
  \<comment> \<open>the inner loop of \<open>_calculate_severity_scores\<close>: \<open>score\<close> after all patterns\<close>
  "severity_raw_score config comment_lower =
     foldl (\<lambda>score pattern.
              if py_in pattern comment_lower
              then let occurrences = min (py_count comment_lower pattern) 3
                   in score + s_weight config * of_nat occurrences
              else score)
           0 (s_patterns config)"

definition calculate_severity_scores :: "string \<Rightarrow> analysis_details \<Rightarrow> (string, rat) dict" where
  "calculate_severity_scores comment_lower details =
     foldl (\<lambda>severity_scores (severity, config).
              let score = severity_raw_score config comment_lower in
              if score > 0
              then AList.update severity
                     (score / (of_nat (length (s_patterns config)) * s_weight config))
                     severity_scores
              else severity_scores)
           [] severity_patterns"

definition apply_modifiers ::
  "string \<Rightarrow> (string, rat) dict \<Rightarrow> analysis_details \<Rightarrow> (string, rat) dict \<times> analysis_details" where
  \<comment> \<open>returns \<open>modified_scores\<close> and the details dict as the three scans leave it\<close>
  "apply_modifiers comment_lower severity_scores details =
     (let (positive_count, details) =
            foldl (\<lambda>(n, d) indicator.
                     if py_in indicator comment_lower
                     then (n + 1, d\<lparr>d_positive_indicators := d_positive_indicators d @ [indicator]\<rparr>)
                     else (n, d))
                  (0 :: nat, details) positive_indicators;
          (constructive_count, details) =
            foldl (\<lambda>(n, d) indicator.
                     if py_in indicator comment_lower
                     then (n + 1, d\<lparr>d_constructive_indicators := d_constructive_indicators d @ [indicator]\<rparr>)
                     else (n, d))
                  (0 :: nat, details) constructive_indicators;
          (intensity_factor, details) =
            foldl (\<lambda>(f, d) (modifier, factor).
                     if py_in modifier comment_lower
                     then (f * factor, d\<lparr>d_intensity_modifiers := d_intensity_modifiers d @ [(modifier, factor)]\<rparr>)
                     else (f, d))
                  (1 :: rat, details) intensity_modifiers;
          modified_scores =
            map (\<lambda>(severity, v).
                   let v = (if positive_count > 0 then v * (1 - (1 / 5) * of_nat positive_count) else v);
                       v = (if constructive_count > 0 then v * (1 - (3 / 20) * of_nat constructive_count) else v)
                   in (severity, v * intensity_factor))
                severity_scores
      in (modified_scores, details))"

definition sentiment_calculate_confidence ::
  "(string, rat) dict \<Rightarrow> analysis_details \<Rightarrow> py_error + rat" where
  \<comment> \<open>\<open>SentimentAnalyzer._calculate_confidence\<close>; its unused local \<open>score_spread\<close> is left out\<close>
  "sentiment_calculate_confidence severity_scores details =
     (if severity_scores = [] then Inr (3 / 10)
      else case py_max (map snd severity_scores) of
        Inl e \<Rightarrow> Inl e
      | Inr max_score \<Rightarrow>
          let confidence = min (max_score * 2) 1;
              confidence = (if length severity_scores > 2 then confidence * (4 / 5) else confidence);
              confidence = (if d_positive_indicators details \<noteq> [] \<or> d_constructive_indicators details \<noteq> []
                            then confidence * (11 / 10) else confidence)
          in Inr (min confidence 1))"

definition determine_tone :: "analysis_details \<Rightarrow> string" where
  "determine_tone details =
     (let positive_count = length (d_positive_indicators details);
          constructive_count = length (d_constructive_indicators details)
      in if positive_count > 0 \<and> constructive_count > 0 then ''constructive''
         else if positive_count > 0 then ''positive''
         else if constructive_count > 0 then ''neutral-constructive''
         else if list_ex (\<lambda>score. score > 7 / 10) (map snd (d_severity_scores details)) then ''harsh''
         else ''neutral'')"

definition initial_details :: analysis_details where
  \<comment> \<open>the \<open>analysis_details\<close> dict as \<open>analyze_sentiment\<close> creates it\<close>
  "initial_details = \<lparr>d_severity_scores = [], d_positive_indicators = [],
                      d_constructive_indicators = [], d_intensity_modifiers = [],
                      d_overall_tone = ''neutral''\<rparr>"

definition sentiment_final_scores :: "string \<Rightarrow> (string, rat) dict" where
  \<comment> \<open>\<open>modified_scores\<close> of \<open>analyze_sentiment\<close>\<close>
  "sentiment_final_scores comment =
     fst (apply_modifiers (lower comment)
            (calculate_severity_scores (lower comment) initial_details) initial_details)"

definition select_severity ::
  "(string, rat) dict \<Rightarrow> analysis_details \<Rightarrow> py_error + (SeverityLevel \<times> rat \<times> analysis_details)" where
  \<comment> \<open>the last steps of \<open>analyze_sentiment\<close> (primary severity, confidence, tone), from
      \<open>modified_scores\<close> and the details on\<close>
  "select_severity modified_scores analysis_details =
     (if modified_scores = [] then Inr (SeverityLevel.LOW, 3 / 10, analysis_details)
      else case py_max_key modified_scores of
        Inl e \<Rightarrow> Inl e
      | Inr primary_severity_str \<Rightarrow>
          (case SeverityLevel_of primary_severity_str of
             Inl e \<Rightarrow> Inl e
           | Inr primary_severity \<Rightarrow>
               (case sentiment_calculate_confidence modified_scores analysis_details of
                  Inl e \<Rightarrow> Inl e
                | Inr confidence \<Rightarrow>
                    let analysis_details =
                          analysis_details\<lparr>d_overall_tone := determine_tone analysis_details\<rparr>;
                        analysis_details =
                          analysis_details\<lparr>d_severity_scores := modified_scores\<rparr>
                    in Inr (primary_severity, confidence, analysis_details))))"

definition analyze_sentiment :: "string \<Rightarrow> py_error + (SeverityLevel \<times> rat \<times> analysis_details)" where
  "analyze_sentiment comment =
     (let comment_lower = lower comment;
          analysis_details = initial_details;
          severity_scores = calculate_severity_scores comment_lower analysis_details;
          (modified_scores, analysis_details) =
             apply_modifiers comment_lower severity_scores analysis_details
      in select_severity modified_scores analysis_details)"

definition get_empathy_level_needed :: "SeverityLevel \<Rightarrow> string \<Rightarrow> string" where
  "get_empathy_level_needed severity tone =
     (if severity = SeverityLevel.CRITICAL \<or> tone = ''harsh'' then ''maximum''
      else if severity = SeverityLevel.HIGH then ''high''
      else if severity = SeverityLevel.MEDIUM \<and> tone \<in> set [''neutral'', ''neutral-constructive'']
      then ''medium''
      else ''low'')"

section \<open>CategoryClassifier\<close>

datatype CategoryType =
  PERFORMANCE | READABILITY | CONVENTION | LOGIC | SECURITY | MAINTAINABILITY | GENERAL

definition CategoryType_value :: "CategoryType \<Rightarrow> string" where
  "CategoryType_value c =
     (case c of PERFORMANCE \<Rightarrow> ''performance'' | READABILITY \<Rightarrow> ''readability''
      | CONVENTION \<Rightarrow> ''convention'' | LOGIC \<Rightarrow> ''logic'' | SECURITY \<Rightarrow> ''security''
      | MAINTAINABILITY \<Rightarrow> ''maintainability'' | GENERAL \<Rightarrow> ''general'')"

definition CategoryType_of :: "string \<Rightarrow> py_error + CategoryType" where
  \<comment> \<open>\<open>CategoryType(value)\<close>\<close>
  "CategoryType_of v =
     (if v = ''performance'' then Inr PERFORMANCE
      else if v = ''readability'' then Inr READABILITY
      else if v = ''convention'' then Inr CONVENTION
      else if v = ''logic'' then Inr LOGIC
      else if v = ''security'' then Inr SECURITY
      else if v = ''maintainability'' then Inr MAINTAINABILITY
      else if v = ''general'' then Inr GENERAL
      else Inl (ValueError (squote @ v @ squote @ '' is not a valid CategoryType'')))"

datatype ImpactLevel = HIGH | MEDIUM | LOW

definition ImpactLevel_of :: "string \<Rightarrow> py_error + ImpactLevel" where
  \<comment> \<open>\<open>ImpactLevel(value)\<close>\<close>
  "ImpactLevel_of v =
     (if v = ''high'' then Inr ImpactLevel.HIGH
      else if v = ''medium'' then Inr ImpactLevel.MEDIUM
      else if v = ''low'' then Inr ImpactLevel.LOW
      else Inl (ValueError (squote @ v @ squote @ '' is not a valid ImpactLevel'')))"

record category_config =
  c_patterns :: "string list"
  c_weight :: rat
  c_typical_impact :: string

definition category_patterns :: "(string, category_config) dict" where
  "category_patterns = [
     (''performance'', \<lparr>
        c_patterns = [''slow'', ''inefficient'', ''performance'', ''loop'', ''complexity'',
                      ''optimization'', ''memory'', ''cpu'', ''algorithm'', ''big-o'', ''scalability'',
                      ''bottleneck'', ''time complexity'', ''space complexity'', ''optimization'',
                      ''caching'', ''lazy loading'', ''eager loading'', ''n+1'', ''query optimization''],
        c_weight = 3, c_typical_impact = ''high''\<rparr>),
     (''readability'', \<lparr>
        c_patterns = [''name'', ''variable'', ''readable'', ''clear'', ''confusing'', ''understand'',
                      ''descriptive'', ''meaningful'', ''self-documenting'', ''clarity'',
                      ''comment'', ''documentation'', ''explain'', ''verbose'', ''concise'',
                      ''naming'', ''identifier'', ''abbreviation''],
        c_weight = 2, c_typical_impact = ''medium''\<rparr>),
     (''convention'', \<lparr>
        c_patterns = [''convention'', ''style'', ''pep'', ''format'', ''standard'', ''guideline'',
                      ''consistent'', ''coding standard'', ''best practice'', ''linting'',
                      ''formatting'', ''indentation'', ''spacing'', ''camelcase'', ''snake_case'',
                      ''pascal case'', ''kebab-case''],
        c_weight = 3 / 2, c_typical_impact = ''low''\<rparr>),
     (''logic'', \<lparr>
        c_patterns = [''logic'', ''bug'', ''error'', ''wrong'', ''issue'', ''condition'', ''boolean'',
                      ''control flow'', ''branch'', ''edge case'', ''null check'', ''validation'',
                      ''exception'', ''handling'', ''try-catch'', ''if-else'', ''switch''],
        c_weight = 4, c_typical_impact = ''high''\<rparr>),
     (''security'', \<lparr>
        c_patterns = [''security'', ''vulnerability'', ''injection'', ''validation'', ''sanitize'',
                      ''authentication'', ''authorization'', ''xss'', ''csrf'', ''sql injection'',
                      ''input validation'', ''output encoding'', ''privilege escalation'',
                      ''data exposure'', ''encryption'', ''hashing''],
        c_weight = 5, c_typical_impact = ''high''\<rparr>),
     (''maintainability'', \<lparr>
        c_patterns = [''maintainable'', ''refactor'', ''duplicate'', ''dry'', ''solid'', ''coupling'',
                      ''cohesion'', ''separation'', ''modular'', ''reusable'', ''extensible'',
                      ''flexible'', ''testable'', ''clean code'', ''technical debt'',
                      ''code smell'', ''single responsibility''],
        c_weight = 5 / 2, c_typical_impact = ''medium''\<rparr>)]"

definition context_patterns :: "(string, string list) dict" where
  "context_patterns = [
     (''performance'', [''faster'', ''slower'', ''optimize'', ''benchmark'', ''profiling'']),
     (''readability'', [''understand'', ''confusing'', ''clear'', ''obvious'', ''readable'']),
     (''convention'', [''style guide'', ''linter'', ''format'', ''consistent'', ''standard'']),
     (''logic'', [''bug'', ''incorrect'', ''fails'', ''broken'', ''wrong result'']),
     (''security'', [''attack'', ''exploit'', ''secure'', ''safe'', ''protect'']),
     (''maintainability'', [''maintain'', ''extend'', ''modify'', ''change'', ''evolve''])]"

definition impact_indicators :: "(string, string list) dict" where
  "impact_indicators = [
     (''high'', [''critical'', ''important'', ''major'', ''significant'', ''breaking'',
                 ''production'', ''user-facing'', ''data loss'', ''security'', ''performance'']),
     (''medium'', [''moderate'', ''noticeable'', ''improvement'', ''enhancement'', ''quality'',
                   ''maintainability'', ''readability'', ''team'', ''developer experience'']),
     (''low'', [''minor'', ''small'', ''cosmetic'', ''style'', ''formatting'', ''convention'',
                ''nice to have'', ''optional'', ''preference''])]"

definition code_hints :: "(string, string list) dict" where
  \<comment> \<open>the local table of \<open>_apply_code_context\<close>\<close>
  "code_hints = [
     (''performance'', [''for '', ''while '', ''loop'', ''iteration'', ''list comprehension'']),
     (''readability'', [''variable'', ''function'', ''method'', ''class'']),
     (''convention'', [''import'', ''def '', ''class '', ''function'']),
     (''logic'', [''if '', ''else'', ''elif'', ''try:'', ''except:'', ''return'']),
     (''security'', [''input'', ''request'', ''user'', ''data'', ''password'']),
     (''maintainability'', [''class'', ''function'', ''method'', ''module''])]"

definition category_raw_score :: "category_config \<Rightarrow> string \<Rightarrow> rat" where
  \<comment> \<open>the pattern loop of \<open>_calculate_category_scores\<close>: \<open>score\<close> after all patterns\<close>
  "category_raw_score config comment_lower =
     foldl (\<lambda>score pattern.
              if py_in pattern comment_lower
              then let occurrences = min (py_count comment_lower pattern) 2
                   in score + c_weight config * of_nat occurrences
              else score)
           0 (c_patterns config)"

definition category_context_score :: "string \<Rightarrow> category_config \<Rightarrow> string \<Rightarrow> rat" where
  \<comment> \<open>\<open>score\<close> after the context-pattern loop, which multiplies it by 1.2 per phrase found
      (the rational \<open>6 / 5\<close> here, the double nearest to it in the program)\<close>
  "category_context_score category config comment_lower =
     (let score = category_raw_score config comment_lower in
      case map_of context_patterns category of
        None \<Rightarrow> score
      | Some phrases \<Rightarrow>
          foldl (\<lambda>score context_pattern.
                   if py_in context_pattern comment_lower then score * (6 / 5) else score)
                score phrases)"

definition calculate_category_scores :: "string \<Rightarrow> (string, rat) dict" where
  "calculate_category_scores comment_lower =
     foldl (\<lambda>category_scores (category, config).
              let score = category_context_score category config comment_lower in
              if score > 0
              then AList.update category
                     (score / (of_nat (length (c_patterns config)) * c_weight config))
                     category_scores
              else category_scores)
           [] category_patterns"

definition apply_code_context :: "(string, rat) dict \<Rightarrow> string \<Rightarrow> (string, rat) dict" where
  "apply_code_context category_scores code_snippet_lower =
     foldl (\<lambda>category_scores (category, hints).
              case map_of category_scores category of
                None \<Rightarrow> category_scores
              | Some v \<Rightarrow>
                  let hint_matches = length (filter (\<lambda>hint. py_in hint code_snippet_lower) hints) in
                  if hint_matches > 0
                  then let boost_factor = 1 + of_nat hint_matches * (1 / 10)
                       in AList.update category (v * boost_factor) category_scores
                  else category_scores)
           category_scores code_hints"

definition category_calculate_confidence :: "(string, rat) dict \<Rightarrow> string \<Rightarrow> py_error + rat" where
  \<comment> \<open>\<open>CategoryClassifier._calculate_confidence\<close>\<close>
  "category_calculate_confidence category_scores comment_lower =
     (if category_scores = [] then Inr (3 / 10)
      else case py_max (map snd category_scores) of
        Inl e \<Rightarrow> Inl e
      | Inr max_score \<Rightarrow>
          let confidence = min (max_score * (3 / 2)) 1;
              confidence = (if length category_scores > 2 then confidence * (9 / 10) else confidence);
              clear_indicators =
                foldl (\<lambda>n (category, patterns).
                         if list_ex (\<lambda>pattern. py_in pattern comment_lower) patterns
                         then n + 1 else n)
                      (0 :: nat) context_patterns;
              confidence = (if clear_indicators = 1 then confidence * (11 / 10)
                            else if clear_indicators > 1 then confidence * (4 / 5)
                            else confidence)
          in Inr (min confidence 1))"

definition assess_impact_level :: "CategoryType \<Rightarrow> string \<Rightarrow> py_error + ImpactLevel" where
  "assess_impact_level category comment_lower =
     (let typical_impact = (case map_of category_patterns (CategoryType_value category) of
                              None \<Rightarrow> ''medium''
                            | Some config \<Rightarrow> c_typical_impact config)
      in case find (\<lambda>(impact, indicators).
                      list_ex (\<lambda>indicator. py_in indicator comment_lower) indicators)
                impact_indicators of
           Some (impact, indicators) \<Rightarrow> ImpactLevel_of impact
         | None \<Rightarrow>
             if category = SECURITY then Inr ImpactLevel.HIGH
             else if category \<in> set [LOGIC, PERFORMANCE]
             then Inr (if list_ex (\<lambda>word. py_in word comment_lower)
                            [''critical'', ''major'', ''serious'']
                       then ImpactLevel.HIGH else ImpactLevel.MEDIUM)
             else if category = CONVENTION then Inr ImpactLevel.LOW
             else ImpactLevel_of typical_impact)"

definition category_final_scores :: "string \<Rightarrow> string option \<Rightarrow> (string, rat) dict" where
  \<comment> \<open>\<open>category_scores\<close> of \<open>classify_comment\<close> once the code context, if any, is applied\<close>
  "category_final_scores comment code_snippet =
     (let comment_lower = lower comment;
          category_scores = calculate_category_scores comment_lower
      in case code_snippet of
           None \<Rightarrow> category_scores
         | Some code \<Rightarrow> if code \<noteq> [] then apply_code_context category_scores (lower code)
                        else category_scores)"

definition select_category ::
  "(string, rat) dict \<Rightarrow> string \<Rightarrow> py_error + (CategoryType \<times> rat \<times> ImpactLevel)" where
  \<comment> \<open>the last steps of \<open>classify_comment\<close> (primary category, confidence, impact), from
      \<open>category_scores\<close> on\<close>
  "select_category category_scores comment_lower =
     (if category_scores = [] then Inr (GENERAL, 3 / 10, ImpactLevel.LOW)
      else case py_max_key category_scores of
        Inl e \<Rightarrow> Inl e
      | Inr primary_category_str \<Rightarrow>
          (case CategoryType_of primary_category_str of
             Inl e \<Rightarrow> Inl e
           | Inr primary_category \<Rightarrow>
               (case category_calculate_confidence category_scores comment_lower of
                  Inl e \<Rightarrow> Inl e
                | Inr confidence \<Rightarrow>
                    (case assess_impact_level primary_category comment_lower of
                       Inl e \<Rightarrow> Inl e
                     | Inr impact_level \<Rightarrow> Inr (primary_category, confidence, impact_level)))))"

definition classify_comment ::
  "string \<Rightarrow> string option \<Rightarrow> py_error + (CategoryType \<times> rat \<times> ImpactLevel)" where
  "classify_comment comment code_snippet =
     select_category (category_final_scores comment code_snippet) (lower comment)"

section \<open>Orchestration: comment records, generation fallback, input validation\<close>

subsection \<open>More \<open>str\<close> methods, used on the generation service's reply\<close>

fun split_char :: "char \<Rightarrow> string \<Rightarrow> string list" where
  \<comment> \<open>\<open>s.split(sep)\<close> for a one-character separator\<close>
  "split_char sep [] = [[]]"
| "split_char sep (c # cs) =
     (if c = sep then [] # split_char sep cs
      else case split_char sep cs of
             w # ws \<Rightarrow> (c # w) # ws
           | [] \<Rightarrow> [[c]])"

fun py_join :: "string \<Rightarrow> string list \<Rightarrow> string" where
  \<comment> \<open>\<open>sep.join(xs)\<close>\<close>
  "py_join sep [] = []"
| "py_join sep [x] = x"
| "py_join sep (x # y # ys) = x @ sep @ py_join sep (y # ys)"

fun replace_from :: "string \<Rightarrow> string \<Rightarrow> nat \<Rightarrow> string \<Rightarrow> string" where
  "replace_from old new skip [] = []"
| "replace_from old new (Suc k) (c # cs) = replace_from old new k cs"
| "replace_from old new 0 (c # cs) =
     (if startswith (c # cs) old then new @ replace_from old new (length old - 1) cs
      else c # replace_from old new 0 cs)"

definition py_replace :: "string \<Rightarrow> string \<Rightarrow> string \<Rightarrow> string" where
  \<comment> \<open>\<open>s.replace(old, new)\<close>: every non-overlapping occurrence, left to right\<close>
  "py_replace s old new =
     (if old = [] then new @ concat (map (\<lambda>c. c # new) s) else replace_from old new 0 s)"

definition slice_inner :: "nat \<Rightarrow> nat \<Rightarrow> string \<Rightarrow> string" where
  \<comment> \<open>\<open>s[a:-b]\<close> for \<open>b > 0\<close>\<close>
  "slice_inner a b s = drop a (take (length s - b) s)"

definition newline :: char where
  "newline = CHR 0x0A"

definition dquote :: string where
  \<comment> \<open>the one-character string holding a double quote\<close>
  "dquote = [CHR 0x22]"

definition backticks :: string where
  \<comment> \<open>three backquotes, the Markdown code fence\<close>
  "backticks = [CHR 0x60, CHR 0x60, CHR 0x60]"

fun digits_of :: "nat \<Rightarrow> string" where
  "digits_of n = (if n < 10 then [''0123456789'' ! n]
                  else digits_of (n div 10) @ [''0123456789'' ! (n mod 10)])"

declare digits_of.simps [simp del]

definition py_str_int :: "int \<Rightarrow> string" where
  \<comment> \<open>\<open>str(i)\<close>, as an f-string formats an int\<close>
  "py_str_int i = (if i < 0 then ''-'' @ digits_of (nat (- i)) else digits_of (nat i))"

subsection \<open>Data model\<close>

record ReviewComment =
  original :: string
  severity :: SeverityLevel
  category :: CategoryType
  impact_level :: ImpactLevel
  confidence :: rat
  positive_rephrase :: string
  explanation :: string
  code_suggestion :: string
  learning_objective :: string
  resources :: "string list"

record ProcessingConfig =
  max_comments :: int
  max_tokens :: int
  temperature :: rat
  top_p :: rat
  frequency_penalty :: rat
  presence_penalty :: rat
  enable_logging :: bool
  log_level :: string

definition default_processing_config :: ProcessingConfig where
  \<comment> \<open>the dataclass defaults, which the environment loader uses too\<close>
  "default_processing_config =
     \<lparr>max_comments = 10, max_tokens = 1500, temperature = 4 / 5, top_p = 19 / 20,
      frequency_penalty = 1 / 10, presence_penalty = 1 / 10, enable_logging = True,
      log_level = ''INFO''\<rparr>"

text \<open>
  The reviewer object with its collaborators. The prompt template, the chat-completion
  service and the Markdown formatter are parameters: the service is the outside world (it
  takes the world's state and returns the reply text or the exception raised, with the new
  state), and the wording of the prompt and of the report plays no part below.
\<close>

record 'st reviewer =
  processing :: ProcessingConfig
  create_empathy_prompt :: "string \<Rightarrow> ReviewComment \<Rightarrow> string \<Rightarrow> string"
  chat_completion :: "string \<Rightarrow> ProcessingConfig \<Rightarrow> 'st \<Rightarrow> (py_error + string) \<times> 'st"
  generate_hackathon_report :: "string \<Rightarrow> ReviewComment list \<Rightarrow> string \<Rightarrow> string"
  resource_mappings :: "(string, (string, string list) dict) dict"

datatype py_value =
  PyNone | PyBool bool | PyInt int | PyFloat rat | PyStr string
| PyList "py_value list" | PyDict "(string \<times> py_value) list"

subsection \<open>FeedbackGenerator\<close>

definition close_section ::
  "(string, string) dict \<Rightarrow> string option \<Rightarrow> string list \<Rightarrow> (string, string) dict" where
  \<comment> \<open>\<open>if current_section: sections[current_section] = '\n'.join(current_content).strip()\<close>\<close>
  "close_section sections current_section current_content =
     (case current_section of
        None \<Rightarrow> sections
      | Some name \<Rightarrow> AList.update name (strip (py_join [newline] current_content)) sections)"

definition parse_line ::
  "(string, string) dict \<times> string option \<times> string list \<Rightarrow> string \<Rightarrow>
   (string, string) dict \<times> string option \<times> string list" where
  \<comment> \<open>one round of the loop of \<open>_parse_response\<close>\<close>
  "parse_line state raw_line =
     (let (sections, current_section, current_content) = state;
          line = strip raw_line
      in if startswith line ''POSITIVE_REPHRASE:''
         then (close_section sections current_section current_content, Some ''rephrase'',
               [strip (py_replace line ''POSITIVE_REPHRASE:'' [])])
         else if startswith line ''EXPLANATION:''
         then (close_section sections current_section current_content, Some ''explanation'',
               [strip (py_replace line ''EXPLANATION:'' [])])
         else if startswith line ''CODE_IMPROVEMENT:''
         then (close_section sections current_section current_content, Some ''code'',
               [strip (py_replace line ''CODE_IMPROVEMENT:'' [])])
         else if startswith line ''LEARNING_OBJECTIVE:''
         then (close_section sections current_section current_content, Some ''learning'',
               [strip (py_replace line ''LEARNING_OBJECTIVE:'' [])])
         else if current_section \<noteq> None \<and> line \<noteq> []
         then (sections, current_section, current_content @ [line])
         else state)"

definition parse_response :: "string \<Rightarrow> (string, string) dict" where
  "parse_response content =
     (let (sections, current_section, current_content) =
            foldl parse_line ([], None, []) (split_char newline content)
      in close_section sections current_section current_content)"

definition dict_get_default :: "('k, 'v) dict \<Rightarrow> 'k \<Rightarrow> 'v \<Rightarrow> 'v" where
  \<comment> \<open>\<open>d.get(k, default)\<close>\<close>
  "dict_get_default d k dflt = (case map_of d k of None \<Rightarrow> dflt | Some v \<Rightarrow> v)"

definition unquote :: "string \<Rightarrow> string" where
  \<comment> \<open>\<open>if s.startswith('"') and s.endswith('"'): s = s[1:-1]\<close>\<close>
  "unquote s = (if startswith s dquote \<and> endswith s dquote then slice_inner 1 1 s else s)"

definition fallback_response :: "ReviewComment \<Rightarrow> ReviewComment" where
  "fallback_response comment =
     comment\<lparr>positive_rephrase := ''Great work! Here's an opportunity to enhance this further.'',
             explanation := ''This improvement will enhance code quality and maintainability.'',
             code_suggestion := ''// Enhanced code would go here'',
             learning_objective := ''Focus on continuous improvement and best practices.'',
             confidence := 3 / 10\<rparr>"

definition generate_empathetic_response ::
  "'st reviewer \<Rightarrow> string \<Rightarrow> ReviewComment \<Rightarrow> string \<Rightarrow> ProcessingConfig \<Rightarrow> 'st \<Rightarrow>
   ReviewComment \<times> 'st" where
  "generate_empathetic_response self code_snippet comment language processing_config world =
     (let prompt = create_empathy_prompt self code_snippet comment language in
      case chat_completion self prompt processing_config world of
        (Inl e, world') \<Rightarrow> (fallback_response comment, world')
      | (Inr reply, world') \<Rightarrow>
          let content = strip reply;
              sections = parse_response content;
              rephrase = dict_get_default sections ''rephrase''
                           ''Great work! Here's a suggestion.'';
              rephrase =
                (if startswith rephrase (dquote @ dquote) \<and> endswith rephrase (dquote @ dquote)
                 then slice_inner 2 2 rephrase
                 else unquote rephrase);
              explained = unquote (dict_get_default sections ''explanation''
                                     ''This will enhance code quality.'');
              suggestion = dict_get_default sections ''code'' ''// Improved code here'';
              suggestion =
                (if py_in backticks suggestion
                 then strip (py_join [newline]
                        (filter (\<lambda>line. \<not> startswith (strip line) backticks \<and> strip line \<noteq> [])
                           (split_char newline suggestion)))
                 else suggestion);
              suggestion = unquote suggestion
          in (comment\<lparr>positive_rephrase := rephrase,
                      explanation := explained,
                      code_suggestion := suggestion,
                      learning_objective := dict_get_default sections ''learning''
                                              ''Focus on best practices.''\<rparr>,
              world'))"

subsection \<open>ResourceManager\<close>

definition get_resources ::
  "(string, (string, string list) dict) dict \<Rightarrow> string \<Rightarrow> string \<Rightarrow> string list" where
  "get_resources mappings language category_value =
     (let lookup = (\<lambda>lang. case map_of mappings lang of
                              None \<Rightarrow> None
                            | Some by_category \<Rightarrow> map_of by_category category_value);
          found = (case lookup language of None \<Rightarrow> [] | Some links \<Rightarrow> take 3 links)
      in if found = []
         then (case lookup ''python'' of None \<Rightarrow> found | Some links \<Rightarrow> found @ take 2 links)
         else found)"

subsection \<open>EmpathethicCodeReviewer\<close>

definition analyze_comment ::
  "'st reviewer \<Rightarrow> string \<Rightarrow> string \<Rightarrow> string \<Rightarrow> 'st \<Rightarrow> (py_error + ReviewComment) \<times> 'st" where
  "analyze_comment self comment_text code_snippet language world =
     (case analyze_sentiment comment_text of
        Inl e \<Rightarrow> (Inl e, world)
      | Inr (sev, sev_confidence, sentiment_details) \<Rightarrow>
          (case classify_comment comment_text (Some code_snippet) of
             Inl e \<Rightarrow> (Inl e, world)
           | Inr (cat, cat_confidence, impact) \<Rightarrow>
               let comment = \<lparr>original = comment_text, severity = sev, category = cat,
                              impact_level = impact,
                              confidence = min sev_confidence cat_confidence,
                              positive_rephrase = [], explanation = [], code_suggestion = [],
                              learning_objective = [], resources = []\<rparr>;
                   (comment, world') =
                      generate_empathetic_response self code_snippet comment language
                        (processing self) world;
                   comment = comment\<lparr>resources :=
                               get_resources (resource_mappings self) language
                                 (CategoryType_value cat)\<rparr>
               in (Inr comment, world')))"

definition comment_error :: "nat \<Rightarrow> py_error" where
  \<comment> \<open>\<open>ValueError(f"Comment {i+1} must be a non-empty string")\<close>\<close>
  "comment_error i =
     ValueError (''Comment '' @ py_str_int (int i + 1) @ '' must be a non-empty string'')"

fun validate_comments :: "nat \<Rightarrow> py_value list \<Rightarrow> py_error + unit" where
  \<comment> \<open>the last loop of \<open>_validate_input\<close>; \<open>i\<close> is the index of the head\<close>
  "validate_comments i [] = Inr ()"
| "validate_comments i (comment # rest) =
     (case comment of
        PyStr s \<Rightarrow> if strip s = [] then Inl (comment_error i)
                   else validate_comments (Suc i) rest
      | _ \<Rightarrow> Inl (comment_error i))"

definition validate_input :: "'st reviewer \<Rightarrow> py_value \<Rightarrow> py_error + unit" where
  "validate_input self input_data =
     (case input_data of
        PyDict items \<Rightarrow>
          (case map_of items ''code_snippet'' of
             None \<Rightarrow> Inl (ValueError (''Input must contain '' @ squote @ ''code_snippet''
                                        @ squote @ '' key''))
           | Some code_snippet \<Rightarrow>
               (case map_of items ''review_comments'' of
                  None \<Rightarrow> Inl (ValueError (''Input must contain '' @ squote @ ''review_comments''
                                             @ squote @ '' key''))
                | Some review_comments \<Rightarrow>
                    if (case code_snippet of PyStr s \<Rightarrow> strip s = [] | _ \<Rightarrow> True)
                    then Inl (ValueError (squote @ ''code_snippet'' @ squote
                                           @ '' must be a non-empty string''))
                    else (case review_comments of
                            PyList comments \<Rightarrow>
                              if comments = []
                              then Inl (ValueError (squote @ ''review_comments'' @ squote
                                                     @ '' must be a non-empty list''))
                              else if int (length comments) > max_comments (processing self)
                              then Inl (ValueError (''Maximum ''
                                                     @ py_str_int (max_comments (processing self))
                                                     @ '' comments allowed''))
                              else validate_comments 0 comments
                          | _ \<Rightarrow> Inl (ValueError (squote @ ''review_comments'' @ squote
                                                   @ '' must be a non-empty list'')))))
      | _ \<Rightarrow> Inl (ValueError ''Input must be a valid JSON object''))"

fun process_comments ::
  "'st reviewer \<Rightarrow> string \<Rightarrow> string \<Rightarrow> py_value list \<Rightarrow> 'st \<Rightarrow>
   (py_error + ReviewComment list) \<times> 'st" where
  \<comment> \<open>the loop of \<open>process_review\<close> over the comments; validation has made each a string\<close>
  "process_comments self code_snippet language [] world = (Inr [], world)"
| "process_comments self code_snippet language (c # rest) world =
     (case c of
        PyStr comment_text \<Rightarrow>
          (case analyze_comment self comment_text code_snippet language world of
             (Inl e, world') \<Rightarrow> (Inl e, world')
           | (Inr comment, world') \<Rightarrow>
               (case process_comments self code_snippet language rest world' of
                  (Inl e, world'') \<Rightarrow> (Inl e, world'')
                | (Inr comments, world'') \<Rightarrow> (Inr (comment # comments), world'')))
      | _ \<Rightarrow> (Inl (comment_error 0), world))"

definition process_review :: "'st reviewer \<Rightarrow> py_value \<Rightarrow> 'st \<Rightarrow> (py_error + string) \<times> 'st" where
  \<comment> \<open>the \<open>try\<close> block re-raises what it catches, so an error is passed on as it is; the
      summary object, built only for a log line, is left out\<close>
  "process_review self input_data world =
     (case validate_input self input_data of
        Inl e \<Rightarrow> (Inl e, world)
      | Inr _ \<Rightarrow>
          (case input_data of
             PyDict items \<Rightarrow>
               (case (map_of items ''code_snippet'', map_of items ''review_comments'') of
                  (Some (PyStr code_snippet), Some (PyList review_comments)) \<Rightarrow>
                    (case detect_language code_snippet None of
                       Inl e \<Rightarrow> (Inl e, world)
                     | Inr (language, lang_confidence) \<Rightarrow>
                         (case process_comments self code_snippet language review_comments world of
                            (Inl e, world') \<Rightarrow> (Inl e, world')
                          | (Inr processed_comments, world') \<Rightarrow>
                              (Inr (generate_hackathon_report self code_snippet
                                      processed_comments language), world')))
                | _ \<Rightarrow> (Inl (ValueError ''Input must be a valid JSON object''), world))
           | _ \<Rightarrow> (Inl (ValueError ''Input must be a valid JSON object''), world)))"

section \<open>Tie-breaking\<close>


section \<open>Concrete inputs used as examples\<close>

definition unreachable_service :: "nat reviewer" where
  \<comment> \<open>a reviewer whose generation service always raises; the world counts the calls made\<close>
  "unreachable_service =
     \<lparr>processing = default_processing_config,
      create_empathy_prompt = (\<lambda>code_snippet comment language. original comment),
      chat_completion = (\<lambda>prompt config calls. (Inl (ServiceError ''timeout''), Suc calls)),
      generate_hackathon_report =
        (\<lambda>code_snippet comments language. concat (map positive_rephrase comments)),
      resource_mappings = []\<rparr>"

definition classified_comment :: ReviewComment where
  "classified_comment =
     \<lparr>original = ''This is terrible'', severity = SeverityLevel.CRITICAL, category = LOGIC,
      impact_level = ImpactLevel.MEDIUM, confidence = 9 / 10,
      positive_rephrase = [], explanation = [], code_suggestion = [],
      learning_objective = [], resources = []\<rparr>"

definition eleven_comments :: py_value where
  "eleven_comments =
     PyDict [(''code_snippet'', PyStr ''x = 1''),
             (''review_comments'', PyList (replicate 11 (PyStr ''fix this'')))]"

definition blank_second_comment :: py_value where
  "blank_second_comment =
     PyDict [(''code_snippet'', PyStr ''x = 1''),
             (''review_comments'', PyList [PyStr ''fix this'', PyStr ''   ''])]"






section \<open>Evaluation\<close>

text \<open>
  A code equation for \<open>lower_char\<close> on the bits of a character, proved from the table:
  an upper-case letter differs from its lower-case letter in bit 5 only.
\<close>

lemma lower_char_Char [code]:
  "lower_char (Char b0 b1 b2 b3 b4 b5 b6 b7) =
     (if b6 \<and> \<not> b5 \<and>
         (if b7 then \<not> (b4 \<and> b2 \<and> b1 \<and> b0)
          else (b0 \<or> b1 \<or> b2 \<or> b3 \<or> b4) \<and> \<not> (b4 \<and> b3 \<and> (b2 \<or> (b1 \<and> b0))))
      then Char b0 b1 b2 b3 b4 True b6 b7
      else Char b0 b1 b2 b3 b4 b5 b6 b7)"
  by (cases b0; cases b1; cases b2; cases b3; cases b4; cases b5; cases b6; cases b7;
      simp only: simp_thms if_True if_False; code_simp)

section \<open>Score maps in closed form\<close>

lemma update_fresh: "k \<notin> fst ` set al \<Longrightarrow> AList.update k v al = al @ [(k, v)]"
  by (induction al) auto

lemma foldl_skip:
  "(\<And>x. x \<in> set xs \<Longrightarrow> \<not> P x) \<Longrightarrow> foldl (\<lambda>a x. if P x then f a x else a) a xs = a"
  by (induction xs arbitrary: a) auto

lemma foldl_score_loop:
  assumes "distinct (map fst table)" and "fst ` set table \<inter> fst ` set acc = {}"
  shows "foldl (\<lambda>acc (k, cfg). if P k cfg then AList.update k (f k cfg) acc else acc) acc table
           = acc @ map (\<lambda>(k, cfg). (k, f k cfg)) (filter (\<lambda>(k, cfg). P k cfg) table)"
  using assms
proof (induction table arbitrary: acc)
  case Nil
  then show ?case by simp
next
  case (Cons entry table)
  obtain k cfg where entry: "entry = (k, cfg)" by (cases entry)
  from Cons.prems entry have fresh: "k \<notin> fst ` set acc" by auto
  from Cons.prems entry have d: "distinct (map fst table)" and knot: "k \<notin> fst ` set table"
    by auto
  show ?case
  proof (cases "P k cfg")
    case True
    from Cons.prems entry knot
    have "fst ` set table \<inter> fst ` set (acc @ [(k, f k cfg)]) = {}" by auto
    from Cons.IH [OF d this] True entry fresh show ?thesis
      by (simp add: update_fresh)
  next
    case False
    from Cons.prems entry have "fst ` set table \<inter> fst ` set acc = {}" by auto
    from Cons.IH [OF d this] False entry show ?thesis by simp
  qed
qed

lemma severity_scores_closed:
  "calculate_severity_scores cl d =
     map (\<lambda>(k, cfg). (k, severity_raw_score cfg cl / (of_nat (length (s_patterns cfg)) * s_weight cfg)))
       (filter (\<lambda>(k, cfg). 0 < severity_raw_score cfg cl) severity_patterns)"
proof -
  have "distinct (map fst severity_patterns)" by (simp add: severity_patterns_def)
  from foldl_score_loop [OF this, of "[]" "\<lambda>k cfg. 0 < severity_raw_score cfg cl"
          "\<lambda>k cfg. severity_raw_score cfg cl / (of_nat (length (s_patterns cfg)) * s_weight cfg)"]
  show ?thesis by (simp add: calculate_severity_scores_def Let_def)
qed

lemma category_scores_closed:
  "calculate_category_scores cl =
     map (\<lambda>(k, cfg). (k, category_context_score k cfg cl / (of_nat (length (c_patterns cfg)) * c_weight cfg)))
       (filter (\<lambda>(k, cfg). 0 < category_context_score k cfg cl) category_patterns)"
proof -
  have "distinct (map fst category_patterns)" by (simp add: category_patterns_def)
  from foldl_score_loop [OF this, of "[]" "\<lambda>k cfg. 0 < category_context_score k cfg cl"
          "\<lambda>k cfg. category_context_score k cfg cl / (of_nat (length (c_patterns cfg)) * c_weight cfg)"]
  show ?thesis by (simp add: calculate_category_scores_def Let_def)
qed

lemma language_scores_closed:
  "analyze_patterns code =
     map (\<lambda>(k, cfg). (k, language_raw_score cfg (lower code) / (of_nat (length (l_patterns cfg)) * 2)))
       language_patterns"
proof -
  have d: "distinct (map fst language_patterns)" by (simp add: language_patterns_def)
  have ne: "filter (\<lambda>(k, cfg). l_patterns cfg \<noteq> []) language_patterns = language_patterns"
    by (simp add: language_patterns_def)
  from foldl_score_loop [OF d, of "[]" "\<lambda>k cfg. l_patterns cfg \<noteq> []"
          "\<lambda>k cfg. language_raw_score cfg (lower code) / (of_nat (length (l_patterns cfg)) * 2)"]
  show ?thesis by (simp add: analyze_patterns_def Let_def ne)
qed

lemma startswith_set: "startswith s p \<Longrightarrow> set p \<subseteq> set s"
  by (induction s p rule: startswith.induct) auto

lemma py_in_set: "py_in p s \<Longrightarrow> set p \<subseteq> set s"
proof (induction s)
  case Nil
  then show ?case by simp
next
  case (Cons a s)
  then show ?case using startswith_set [of "a # s" p] by auto
qed

lemma severity_raw_zero:
  "list_all (\<lambda>p. \<not> py_in p cl) (s_patterns cfg) \<Longrightarrow> severity_raw_score cfg cl = 0"
  unfolding severity_raw_score_def by (rule foldl_skip) (simp add: list_all_iff)

lemma category_raw_zero:
  "list_all (\<lambda>p. \<not> py_in p cl) (c_patterns cfg) \<Longrightarrow> category_raw_score cfg cl = 0"
  unfolding category_raw_score_def by (rule foldl_skip) (simp add: list_all_iff)

lemma language_raw_zero:
  "list_all (\<lambda>p. \<not> py_in (lower p) cl) (l_patterns cfg) \<Longrightarrow> language_raw_score cfg cl = 0"
  unfolding language_raw_score_def by (rule foldl_skip) (simp add: list_all_iff)

lemma context_boost_pos:
  "0 < foldl (\<lambda>score phrase. if P phrase then score * (6 / 5) else score) (s :: rat) phrases
     \<longleftrightarrow> 0 < s"
  by (induction phrases arbitrary: s) (auto simp: zero_less_mult_iff)

lemma category_context_pos:
  "0 < category_context_score k cfg cl \<longleftrightarrow> 0 < category_raw_score cfg cl"
  by (simp add: category_context_score_def Let_def context_boost_pos split: option.split)

text \<open>
  C6, as the code has it. In the severity and the category scoring passes the score map
  holds exactly the labels whose raw weighted-pattern score is strictly positive, in table
  order: a label with raw score 0 is absent. The language scoring pass is different: every
  language of the table is in the score map, with its normalized score, which is 0 for a
  language none of whose patterns occurs.
\<close>

theorem score_map_labels:
  "map fst (calculate_severity_scores comment_lower details)
     = map fst (filter (\<lambda>(severity, config). 0 < severity_raw_score config comment_lower)
                  severity_patterns)
   \<and> map fst (calculate_category_scores comment_lower)
     = map fst (filter (\<lambda>(category, config). 0 < category_raw_score config comment_lower)
                  category_patterns)
   \<and> analyze_patterns code_snippet
     = map (\<lambda>(language, config).
              (language, language_raw_score config (lower code_snippet)
                           / (of_nat (length (l_patterns config)) * 2)))
         language_patterns"
proof -
  have "map fst (calculate_severity_scores comment_lower details)
     = map fst (filter (\<lambda>(severity, config). 0 < severity_raw_score config comment_lower)
                  severity_patterns)"
    by (simp add: severity_scores_closed case_prod_beta comp_def)
  moreover have "map fst (calculate_category_scores comment_lower)
     = map fst (filter (\<lambda>(category, config). 0 < category_raw_score config comment_lower)
                  category_patterns)"
    by (simp add: category_scores_closed category_context_pos case_prod_beta comp_def)
  ultimately show ?thesis
    using language_scores_closed [of code_snippet] by simp
qed

text \<open>
  The claim as first stated fails for the language detector: no pattern occurs in
  \<open>x = 1\<close>, every raw score is 0, and all eight languages are in the map.
\<close>

theorem zero_score_language_in_map:
  "map (\<lambda>(language, config). language_raw_score config (lower ''x = 1'')) language_patterns
     = [0, 0, 0, 0, 0, 0, 0, 0]
   \<and> analyze_patterns ''x = 1'' =
      [(''python'', 0), (''javascript'', 0), (''typescript'', 0), (''java'', 0),
       (''cpp'', 0), (''csharp'', 0), (''go'', 0), (''rust'', 0)]"
  by code_simp

theorem score_map_labels_witness:
  "map fst (calculate_severity_scores ''bad loop'' initial_details) = [''high'']
   \<and> map fst (calculate_category_scores ''bad loop'') = [''performance'']
   \<and> map fst (analyze_patterns ''bad loop'') = map fst language_patterns"
proof -
  have a: "map fst (filter (\<lambda>(severity, config). 0 < severity_raw_score config ''bad loop'')
                  severity_patterns) = [''high'']"
    by code_simp
  have b: "map fst (filter (\<lambda>(category, config). 0 < category_raw_score config ''bad loop'')
                  category_patterns) = [''performance'']"
    by code_simp
  from score_map_labels [of "''bad loop''" initial_details "''bad loop''"] a b
  show ?thesis by (simp add: case_prod_beta comp_def)
qed

section \<open>Blank input\<close>

lemma isspace_lower_char: "isspace c \<Longrightarrow> lower_char c = c"
proof -
  have "list_all (\<lambda>c. lower_char c = c) whitespace"
    by code_simp
  then show "isspace c \<Longrightarrow> lower_char c = c"
    unfolding isspace_def list_all_iff by blast
qed

lemma blank_lower: "list_all isspace s \<Longrightarrow> lower s = s"
  by (induction s) (simp_all add: lower_def isspace_lower_char)

lemma blank_strip: "list_all isspace s \<Longrightarrow> strip s = []"
proof -
  assume "list_all isspace s"
  then have "dropWhile isspace s = []" by (induction s) auto
  then show "strip s = []" by (simp add: strip_def del: dropWhile_eq_Nil_conv)
qed

lemma blank_no_pattern:
  assumes "list_all isspace s" and "list_ex (\<lambda>c. \<not> isspace c) p"
  shows "\<not> py_in p s"
proof
  assume "py_in p s"
  then have "set p \<subseteq> set s" by (rule py_in_set)
  with assms show False by (auto simp: list_all_iff list_ex_iff)
qed

lemma category_patterns_visible:
  "list_all (\<lambda>(category, config). list_all (list_ex (\<lambda>c. \<not> isspace c)) (c_patterns config))
     category_patterns"
  by code_simp

lemma blank_category_scores:
  assumes "list_all isspace s"
  shows "calculate_category_scores s = []"
proof -
  have "\<not> 0 < category_context_score k cfg s" if "(k, cfg) \<in> set category_patterns" for k cfg
  proof -
    from that category_patterns_visible
    have "list_all (list_ex (\<lambda>c. \<not> isspace c)) (c_patterns cfg)"
      by (auto simp: list_all_iff)
    then have "list_all (\<lambda>p. \<not> py_in p s) (c_patterns cfg)"
      using blank_no_pattern [OF assms] by (auto simp: list_all_iff)
    then show ?thesis by (simp add: category_context_pos category_raw_zero)
  qed
  then have "filter (\<lambda>(k, cfg). 0 < category_context_score k cfg s) category_patterns = []"
    by (auto simp: filter_empty_conv)
  then show ?thesis by (simp add: category_scores_closed)
qed

lemma apply_code_context_empty: "apply_code_context [] code_lower = []"
  by (simp add: apply_code_context_def code_hints_def)

text \<open>
  C8. \<open>detect_language\<close> returns \<open>('unknown', 0.0)\<close> for every empty or whitespace-only code
  fragment, and \<open>classify_comment\<close> returns category general with confidence 0.3 and impact
  low for every whitespace-only comment; both return a value (\<open>Inr\<close>), neither raises.
\<close>

theorem blank_input_fallbacks:
  "(list_all isspace code \<longrightarrow> detect_language code filename = Inr (''unknown'', 0))
   \<and> (list_all isspace comment \<longrightarrow>
        classify_comment comment code_snippet = Inr (GENERAL, 3 / 10, ImpactLevel.LOW))"
proof (intro conjI impI)
  assume "list_all isspace code"
  then show "detect_language code filename = Inr (''unknown'', 0)"
    by (simp add: detect_language_def select_language_def blank_strip)
next
  assume blank: "list_all isspace comment"
  then have "calculate_category_scores (lower comment) = []"
    by (simp add: blank_lower blank_category_scores)
  then have "category_final_scores comment code_snippet = []"
    by (simp add: category_final_scores_def apply_code_context_empty split: option.split)
  then show "classify_comment comment code_snippet = Inr (GENERAL, 3 / 10, ImpactLevel.LOW)"
    by (simp add: classify_comment_def select_category_def)
qed

theorem blank_input_fallbacks_witness:
  "list_all isspace '' ''
   \<and> detect_language '' '' (Some ''app.py'') = Inr (''unknown'', 0)
   \<and> classify_comment '' '' (Some ''x = 1'') = Inr (GENERAL, 3 / 10, ImpactLevel.LOW)"
proof -
  have h: "list_all isspace '' ''" by code_simp
  from blank_input_fallbacks [of "'' ''" "Some ''app.py''" "'' ''" "Some ''x = 1''"] h
  show ?thesis by simp
qed

section \<open>Sentiment: fallback and tone\<close>

lemma apply_modifiers_keys: "map fst (fst (apply_modifiers cl scores d)) = map fst scores"
  by (simp add: apply_modifiers_def Let_def split_beta comp_def)

lemma apply_modifiers_empty: "fst (apply_modifiers cl [] d) = []"
  by (simp add: apply_modifiers_def Let_def split_beta)

lemma foldl_snd_invariant:
  assumes "\<And>a d x. g (snd (step (a, d) x)) = g d"
  shows "g (snd (foldl step (a, d) xs)) = g d"
proof (induction xs arbitrary: a d)
  case Nil
  then show ?case by simp
next
  case (Cons x xs)
  obtain a' d' where s: "step (a, d) x = (a', d')" by (cases "step (a, d) x")
  with assms [of a d x] have "g d' = g d" by simp
  with Cons.IH [of a' d'] s show ?case by simp
qed

lemma apply_modifiers_tone:
  "d_overall_tone (snd (apply_modifiers cl scores d)) = d_overall_tone d"
proof -
  have a: "\<And>n d. d_overall_tone (snd (foldl (\<lambda>(n, d) indicator.
                     if py_in indicator cl
                     then (n + 1, d\<lparr>d_positive_indicators := d_positive_indicators d @ [indicator]\<rparr>)
                     else (n, d)) (n :: nat, d) positive_indicators)) = d_overall_tone d"
    by (rule foldl_snd_invariant) simp
  have b: "\<And>n d. d_overall_tone (snd (foldl (\<lambda>(n, d) indicator.
                     if py_in indicator cl
                     then (n + 1, d\<lparr>d_constructive_indicators := d_constructive_indicators d @ [indicator]\<rparr>)
                     else (n, d)) (n :: nat, d) constructive_indicators)) = d_overall_tone d"
    by (rule foldl_snd_invariant) simp
  have c: "\<And>f d. d_overall_tone (snd (foldl (\<lambda>(f, d) (modifier, factor).
                     if py_in modifier cl
                     then (f * factor, d\<lparr>d_intensity_modifiers := d_intensity_modifiers d @ [(modifier, factor)]\<rparr>)
                     else (f, d)) (f :: rat, d) intensity_modifiers)) = d_overall_tone d"
    by (rule foldl_snd_invariant) (simp add: split_beta)
  show ?thesis
    by (simp add: apply_modifiers_def Let_def split_beta a b c)
qed

lemma apply_modifiers_scores:
  "d_severity_scores (snd (apply_modifiers cl scores d)) = d_severity_scores d"
proof -
  have a: "\<And>n d. d_severity_scores (snd (foldl (\<lambda>(n, d) indicator.
                     if py_in indicator cl
                     then (n + 1, d\<lparr>d_positive_indicators := d_positive_indicators d @ [indicator]\<rparr>)
                     else (n, d)) (n :: nat, d) positive_indicators)) = d_severity_scores d"
    by (rule foldl_snd_invariant) simp
  have b: "\<And>n d. d_severity_scores (snd (foldl (\<lambda>(n, d) indicator.
                     if py_in indicator cl
                     then (n + 1, d\<lparr>d_constructive_indicators := d_constructive_indicators d @ [indicator]\<rparr>)
                     else (n, d)) (n :: nat, d) constructive_indicators)) = d_severity_scores d"
    by (rule foldl_snd_invariant) simp
  have c: "\<And>f d. d_severity_scores (snd (foldl (\<lambda>(f, d) (modifier, factor).
                     if py_in modifier cl
                     then (f * factor, d\<lparr>d_intensity_modifiers := d_intensity_modifiers d @ [(modifier, factor)]\<rparr>)
                     else (f, d)) (f :: rat, d) intensity_modifiers)) = d_severity_scores d"
    by (rule foldl_snd_invariant) (simp add: split_beta)
  show ?thesis
    by (simp add: apply_modifiers_def Let_def split_beta a b c)
qed

text \<open>
  C3, as the code has it. For every comment in which no severity pattern occurs, so that
  the score map is empty, \<open>analyze_sentiment\<close> returns severity low with confidence 0.3
  (and the details keep the initial tone \<open>neutral\<close>). The test of the code is on the
  emptiness of the score map, not on the values in it.
\<close>

theorem no_severity_pattern_fallback:
  assumes "list_all (\<lambda>(severity, config).
                       list_all (\<lambda>pattern. \<not> py_in pattern (lower comment)) (s_patterns config))
             severity_patterns"
  shows "\<exists>details. analyze_sentiment comment = Inr (SeverityLevel.LOW, 3 / 10, details)
                   \<and> d_severity_scores details = []
                   \<and> d_overall_tone details = ''neutral''"
proof -
  from assms have "filter (\<lambda>(k, cfg). 0 < severity_raw_score cfg (lower comment)) severity_patterns = []"
    by (auto simp: filter_empty_conv list_all_iff severity_raw_zero)
  then have empty: "calculate_severity_scores (lower comment) initial_details = []"
    by (simp add: severity_scores_closed)
  obtain m d where am: "apply_modifiers (lower comment) [] initial_details = (m, d)"
    by (cases "apply_modifiers (lower comment) [] initial_details")
  with apply_modifiers_empty [of "lower comment" initial_details] have m: "m = []" by simp
  from am apply_modifiers_tone [of "lower comment" "[]" initial_details]
  have tone: "d_overall_tone d = ''neutral''" by (simp add: initial_details_def)
  from am apply_modifiers_scores [of "lower comment" "[]" initial_details]
  have sc: "d_severity_scores d = []" by (simp add: initial_details_def)
  from empty am m have "analyze_sentiment comment = Inr (SeverityLevel.LOW, 3 / 10, d)"
    by (simp add: analyze_sentiment_def select_severity_def)
  with tone sc show ?thesis by blast
qed

text \<open>
  The claim as first stated fails where patterns match and the modifiers bring every
  score to zero: \<open>bad\<close> scores for severity high, five positive indicators multiply the
  score by \<open>1 - 0.2 * 5 = 0\<close> (in double precision too: \<open>0.2 * 5\<close> rounds to \<open>1.0\<close>), the
  map is not empty, and the result is severity high with confidence 0.
\<close>

theorem zeroed_scores_not_fallback:
  "analyze_sentiment ''bad good nice great excellent solid'' =
     Inr (SeverityLevel.HIGH, 0,
          \<lparr>d_severity_scores = [(''high'', 0)],
           d_positive_indicators = [''good'', ''nice'', ''great'', ''excellent'', ''solid''],
           d_constructive_indicators = [], d_intensity_modifiers = [],
           d_overall_tone = ''positive''\<rparr>)"
  by code_simp

theorem no_severity_pattern_fallback_witness:
  "list_all (\<lambda>(severity, config).
               list_all (\<lambda>pattern. \<not> py_in pattern (lower ''Looks fine to me'')) (s_patterns config))
     severity_patterns
   \<and> (\<exists>details. analyze_sentiment ''Looks fine to me'' = Inr (SeverityLevel.LOW, 3 / 10, details)
                   \<and> d_severity_scores details = []
                   \<and> d_overall_tone details = ''neutral'')"
proof -
  have h: "list_all (\<lambda>(severity, config).
               list_all (\<lambda>pattern. \<not> py_in pattern (lower ''Looks fine to me'')) (s_patterns config))
     severity_patterns"
    by code_simp
  from no_severity_pattern_fallback [OF h] h show ?thesis by blast
qed

text \<open>
  C2. The claim is that a comment without positive or constructive indicators whose largest
  modified score exceeds 0.7 gets the tone \<open>harsh\<close>. \<open>analyze_sentiment\<close> derives the tone
  before it stores the modified scores in the details, so \<open>_determine_tone\<close> reads an empty
  score map: here the critical score is 0.8 and the tone is \<open>neutral\<close>.
\<close>

theorem harsh_comment_gets_neutral_tone:
  "analyze_sentiment ''extremely terrible awful horrible disaster'' =
     Inr (SeverityLevel.CRITICAL, 1,
          \<lparr>d_severity_scores = [(''critical'', 4 / 5), (''high'', 4 / 11)],
           d_positive_indicators = [], d_constructive_indicators = [],
           d_intensity_modifiers = [(''extremely'', 2)],
           d_overall_tone = ''neutral''\<rparr>)
   \<and> (4 / 5 :: rat) > 7 / 10"
  by code_simp

text \<open>
  More generally, no comment is ever given the tone \<open>harsh\<close>.
\<close>

lemma tone_never_harsh:
  assumes "analyze_sentiment comment = Inr (sev, conf, details)"
  shows "d_overall_tone details \<noteq> ''harsh''"
proof -
  let ?cl = "lower comment"
  obtain m d where am:
    "apply_modifiers ?cl (calculate_severity_scores ?cl initial_details) initial_details = (m, d)"
    by (cases "apply_modifiers ?cl (calculate_severity_scores ?cl initial_details) initial_details")
  from am apply_modifiers_tone [of ?cl "calculate_severity_scores ?cl initial_details" initial_details]
  have tone: "d_overall_tone d = ''neutral''" by (simp add: initial_details_def)
  from am apply_modifiers_scores [of ?cl "calculate_severity_scores ?cl initial_details" initial_details]
  have sc: "d_severity_scores d = []" by (simp add: initial_details_def)
  then have dt: "determine_tone d \<noteq> ''harsh''"
    by (simp add: determine_tone_def Let_def)
  show ?thesis
  proof (cases "m = []")
    case True
    with assms am tone show ?thesis by (auto simp: analyze_sentiment_def select_severity_def)
  next
    case False
    with assms am dt show ?thesis
      by (auto simp: analyze_sentiment_def select_severity_def Let_def split: sum.splits)
  qed
qed

section \<open>Confidence bounds\<close>

text \<open>
  What holds of the confidence values: the confidence of \<open>analyze_sentiment\<close> is at most 1,
  and those of \<open>detect_language\<close> and \<open>classify_comment\<close> lie in [0, 1].
\<close>

lemma sentiment_confidence_le_1:
  assumes "analyze_sentiment comment = Inr (sev, conf, details)"
  shows "conf \<le> 1"
proof -
  have "c \<le> 1" if "sentiment_calculate_confidence scores d = Inr c" for scores d c
    using that
    by (auto simp: sentiment_calculate_confidence_def Let_def split: if_splits sum.splits)
  with assms show ?thesis
    by (auto simp: analyze_sentiment_def select_severity_def Let_def split: prod.splits if_splits sum.splits)
qed

lemma update_entries:
  "(k', v') \<in> set (AList.update k v al) \<Longrightarrow> (k', v') = (k, v) \<or> (k', v') \<in> set al"
  by (induction al) (auto split: if_splits)

lemma language_raw_nonneg: "0 \<le> language_raw_score cfg cl"
proof -
  have "0 \<le> foldl (\<lambda>score pattern.
              if py_in (lower pattern) cl
              then let weight = (if pattern \<in> set (l_strong_indicators cfg) then 2 else 1);
                       occurrences = py_count cl (lower pattern)
                   in score + weight * of_nat (min occurrences 3)
              else score) a ps" if "0 \<le> a" for a :: rat and ps
    using that by (induction ps arbitrary: a) (auto simp: Let_def)
  then show ?thesis by (simp add: language_raw_score_def)
qed

lemma language_final_nonneg:
  assumes "(k, v) \<in> set (language_final_scores code fn)"
  shows "0 \<le> v"
proof -
  have base: "0 \<le> v'" if "(k', v') \<in> set (analyze_patterns code)" for k' v'
    using that by (auto simp: language_scores_closed language_raw_nonneg)
  show ?thesis
  proof (cases "language_final_scores code fn = analyze_patterns code")
    case True
    with assms base show ?thesis by simp
  next
    case False
    then obtain l v0 where upd: "language_final_scores code fn
          = AList.update l (v0 * (3 / 2)) (analyze_patterns code)"
      and v0: "map_of (analyze_patterns code) l = Some v0"
      by (auto simp: language_final_scores_def Let_def split: option.splits)
    from v0 have "0 \<le> v0" using base map_of_SomeD by fastforce
    with assms upd base update_entries [of k v l "v0 * (3 / 2)" "analyze_patterns code"]
    show ?thesis by auto
  qed
qed

lemma language_confidence_bounds:
  assumes "detect_language code fn = Inr (language, conf)"
  shows "0 \<le> conf \<and> conf \<le> 1"
proof -
  have "0 \<le> v" if "map_of (language_final_scores code fn) k = Some v" for k v
    using that language_final_nonneg map_of_SomeD by fastforce
  with assms show ?thesis
    by (auto simp: detect_language_def select_language_def Let_def split: if_splits sum.splits option.splits)
qed

lemma foldl_max_nonneg: "0 \<le> v \<Longrightarrow> 0 \<le> foldl max (v :: rat) rest"
  by (induction rest arbitrary: v) (auto simp: max_def)

lemma category_weights_nonneg:
  "list_all (\<lambda>(category, config). 0 \<le> c_weight config) category_patterns"
  by (simp add: category_patterns_def)

lemma category_scores_nonneg:
  assumes "(k, v) \<in> set (calculate_category_scores cl)"
  shows "0 \<le> v"
proof -
  from assms obtain cfg where cfg: "(k, cfg) \<in> set category_patterns"
    and pos: "0 < category_context_score k cfg cl"
    and v: "v = category_context_score k cfg cl / (of_nat (length (c_patterns cfg)) * c_weight cfg)"
    by (auto simp: category_scores_closed)
  from cfg category_weights_nonneg have "0 \<le> c_weight cfg" by (auto simp: list_all_iff)
  with pos v show ?thesis by simp
qed

lemma apply_code_context_nonneg:
  assumes "\<forall>(k, v) \<in> set scores. 0 \<le> v"
  shows "\<forall>(k, v) \<in> set (apply_code_context scores cl). 0 \<le> v"
proof -
  let ?step = "\<lambda>category_scores (category, hints).
              case map_of category_scores category of
                None \<Rightarrow> category_scores
              | Some v \<Rightarrow>
                  let hint_matches = length (filter (\<lambda>hint. py_in hint cl) hints) in
                  if hint_matches > 0
                  then let boost_factor = 1 + of_nat hint_matches * (1 / 10)
                       in AList.update category (v * boost_factor) category_scores
                  else category_scores"
  have "\<forall>(k, v) \<in> set (foldl ?step scores hs). 0 \<le> v"
    if "\<forall>(k, v) \<in> set scores. 0 \<le> v" for hs and scores :: "(string, rat) dict"
    using that
  proof (induction hs arbitrary: scores)
    case Nil
    then show ?case by simp
  next
    case (Cons h hs)
    obtain category hints where h: "h = (category, hints)" by (cases h)
    have "\<forall>(k, v) \<in> set (?step scores h). 0 \<le> v"
    proof (cases "map_of scores category")
      case None
      with Cons.prems h show ?thesis by simp
    next
      case (Some v0)
      with Cons.prems have v0: "0 \<le> v0" using map_of_SomeD by fastforce
      let ?w = "1 + of_nat (length (filter (\<lambda>hint. py_in hint cl) hints)) * (1 / 10) :: rat"
      have "0 \<le> v0 * ?w" using v0 by simp
      then have "\<forall>(k, v) \<in> set (AList.update category (v0 * ?w) scores). 0 \<le> v"
        using Cons.prems update_entries [of _ _ category "v0 * ?w" scores] by fastforce
      with Cons.prems Some h show ?thesis by (simp add: Let_def)
    qed
    then have "\<forall>(k, v) \<in> set (foldl ?step (?step scores h) hs). 0 \<le> v"
      by (rule Cons.IH)
    then show ?case by simp
  qed
  with assms show ?thesis by (simp add: apply_code_context_def)
qed

lemma category_confidence_bounds:
  assumes "classify_comment comment code = Inr (cat, conf, impact)"
  shows "0 \<le> conf \<and> conf \<le> 1"
proof (cases "category_final_scores comment code = []")
  case True
  with assms show ?thesis by (simp add: classify_comment_def select_category_def)
next
  case False
  let ?m = "category_final_scores comment code"
  have base: "\<forall>(k, v) \<in> set (calculate_category_scores (lower comment)). 0 \<le> v"
    using category_scores_nonneg by auto
  then have nn: "\<forall>(k, v) \<in> set ?m. 0 \<le> v"
    using apply_code_context_nonneg [OF base]
    by (simp add: category_final_scores_def Let_def split: option.split)
  from False obtain kv rest where m: "?m = kv # rest" by (cases ?m) auto
  with nn have "0 \<le> snd kv" by auto
  then have top: "0 \<le> foldl max (snd kv) (map snd rest)" by (rule foldl_max_nonneg)
  from assms False have "category_calculate_confidence ?m (lower comment) = Inr conf"
    by (auto simp: classify_comment_def select_category_def Let_def split: sum.splits)
  with m top show ?thesis
    by (auto simp: category_calculate_confidence_def py_max_def Let_def split: if_splits)
qed

text \<open>
  C1. The claim is that every analyzer's confidence lies in [0, 1]. \<open>analyze_sentiment\<close>
  breaks it: with six positive indicators the modifier \<open>1 - 0.2 * 6\<close> is negative, the only
  score becomes negative, and so does the confidence, which is capped at 1 but has no floor.
\<close>

theorem analyze_sentiment_negative_confidence:
  "analyze_sentiment ''bad good nice great excellent solid clean'' =
     Inr (SeverityLevel.HIGH, - (1 / 25),
          \<lparr>d_severity_scores = [(''high'', - (1 / 55))],
           d_positive_indicators = [''good'', ''nice'', ''great'', ''excellent'', ''solid'', ''clean''],
           d_constructive_indicators = [], d_intensity_modifiers = [],
           d_overall_tone = ''positive''\<rparr>)
   \<and> - (1 / 25) < (0 :: rat)"
  by code_simp

section \<open>The worked example of the specification\<close>

text \<open>
  C4, as the code has it. For the comment \<open>This is terrible, completely wrong logic\<close>, with
  no code fragment, \<open>analyze_sentiment\<close> returns severity critical and \<open>classify_comment\<close>
  returns category logic with impact level medium: the comment holds no impact keyword and
  none of the escalation words \<open>critical\<close>, \<open>major\<close>, \<open>serious\<close>, so the logic category gets
  its default, medium.
\<close>

theorem terrible_logic_example:
  "analyze_sentiment ''This is terrible, completely wrong logic'' =
     Inr (SeverityLevel.CRITICAL, 2 / 5,
          \<lparr>d_severity_scores = [(''critical'', 1 / 5), (''high'', 2 / 11)],
           d_positive_indicators = [], d_constructive_indicators = [],
           d_intensity_modifiers = [], d_overall_tone = ''neutral''\<rparr>)
   \<and> classify_comment ''This is terrible, completely wrong logic'' None =
     Inr (LOGIC, 3 / 17, ImpactLevel.MEDIUM)
   \<and> find (\<lambda>(impact, indicators).
              list_ex (\<lambda>indicator. py_in indicator (lower ''This is terrible, completely wrong logic''))
                indicators) impact_indicators = None
   \<and> list_ex (\<lambda>word. py_in word (lower ''This is terrible, completely wrong logic''))
        [''critical'', ''major'', ''serious''] = False"
  by code_simp

text \<open>
  The claim as first stated gives impact high; the code returns medium.
\<close>

theorem terrible_logic_impact_medium:
  "classify_comment ''This is terrible, completely wrong logic'' None =
     Inr (LOGIC, 3 / 17, ImpactLevel.MEDIUM)"
  by code_simp

section \<open>Language detection and the filename\<close>

lemma language_zero_scores:
  assumes "list_all (\<lambda>(language, config).
                       list_all (\<lambda>pattern. \<not> py_in (lower pattern) (lower code)) (l_patterns config))
             language_patterns"
  shows "analyze_patterns code = map (\<lambda>(language, config). (language, 0)) language_patterns"
proof -
  have "language_raw_score cfg (lower code) = 0" if "(k, cfg) \<in> set language_patterns" for k cfg
    using that assms by (auto simp: list_all_iff intro!: language_raw_zero)
  then show ?thesis
    by (auto simp: language_scores_closed)
qed

text \<open>
  C5, as the code has it. The filename \<open>app.py\<close> resolves to python, but for every
  non-blank code fragment in which no language pattern occurs, \<open>detect_language\<close> with that
  filename returns \<open>('unknown', 0.1)\<close>: the boost multiplies python's score, which is 0, and
  a maximum of 0 is answered by \<open>unknown\<close>.
\<close>

theorem filename_boost_needs_pattern_match:
  "detect_from_filename ''app.py'' = Some ''python''
   \<and> (strip code \<noteq> [] \<longrightarrow>
       list_all (\<lambda>(language, config).
                   list_all (\<lambda>pattern. \<not> py_in (lower pattern) (lower code)) (l_patterns config))
         language_patterns \<longrightarrow>
       detect_language code (Some ''app.py'') = Inr (''unknown'', 1 / 10))"
proof (intro conjI impI)
  show f: "detect_from_filename ''app.py'' = Some ''python''"
    by code_simp
  assume ne: "strip code \<noteq> []"
  assume "list_all (\<lambda>(language, config).
                   list_all (\<lambda>pattern. \<not> py_in (lower pattern) (lower code)) (l_patterns config))
         language_patterns"
  then have "analyze_patterns code = map (\<lambda>(language, config). (language, 0)) language_patterns"
    by (rule language_zero_scores)
  then have scores: "analyze_patterns code =
      [(''python'', 0), (''javascript'', 0), (''typescript'', 0), (''java'', 0),
       (''cpp'', 0), (''csharp'', 0), (''go'', 0), (''rust'', 0)]"
    by (simp add: language_patterns_def)
  from ne have "code \<noteq> []" by (auto simp: strip_def)
  with ne f scores show "detect_language code (Some ''app.py'') = Inr (''unknown'', 1 / 10)"
    by (simp add: detect_language_def select_language_def language_final_scores_def py_max_def)
qed

text \<open>
  The claim as first stated, that the language resolves to python, fails at the code
  fragment \<open>xyz\<close>.
\<close>

theorem app_py_without_patterns_unknown:
  "analyze_patterns ''xyz'' =
      [(''python'', 0), (''javascript'', 0), (''typescript'', 0), (''java'', 0),
       (''cpp'', 0), (''csharp'', 0), (''go'', 0), (''rust'', 0)]
   \<and> detect_language ''xyz'' (Some ''app.py'') = Inr (''unknown'', 1 / 10)"
  by code_simp

theorem filename_boost_needs_pattern_match_witness:
  "strip ''total = 42'' \<noteq> []
   \<and> list_all (\<lambda>(language, config).
                 list_all (\<lambda>pattern. \<not> py_in (lower pattern) (lower ''total = 42'')) (l_patterns config))
        language_patterns
   \<and> detect_language ''total = 42'' (Some ''app.py'') = Inr (''unknown'', 1 / 10)"
proof -
  have a: "strip ''total = 42'' \<noteq> []" by code_simp
  have b: "list_all (\<lambda>(language, config).
                 list_all (\<lambda>pattern. \<not> py_in (lower pattern) (lower ''total = 42'')) (l_patterns config))
        language_patterns"
    by code_simp
  from filename_boost_needs_pattern_match [of "''total = 42''"] a b show ?thesis by blast
qed

section \<open>Tie-breaking by table order\<close>




lemma map_fst_filter_keys:
  assumes "distinct (map fst table)"
  shows "map fst (filter (\<lambda>(k, cfg). P k cfg) table)
           = filter (\<lambda>k. case map_of table k of Some cfg \<Rightarrow> P k cfg | None \<Rightarrow> False)
               (map fst table)"
  using assms
proof (induction table)
  case Nil
  then show ?case by simp
next
  case (Cons entry table)
  obtain k cfg where entry: "entry = (k, cfg)" by (cases entry)
  from Cons.prems entry have knot: "k \<notin> fst ` set table" and d: "distinct (map fst table)"
    by auto
  have "filter (\<lambda>k'. case map_of (entry # table) k' of Some cfg \<Rightarrow> P k' cfg | None \<Rightarrow> False)
          (map fst table)
        = filter (\<lambda>k'. case map_of table k' of Some cfg \<Rightarrow> P k' cfg | None \<Rightarrow> False)
          (map fst table)"
    using knot entry by (intro filter_cong) auto
  with Cons.IH [OF d] entry show ?case by simp
qed












text \<open>
  Each analyzer is its scoring pass followed by its selection step.
\<close>

lemma analyze_sentiment_selects:
  "analyze_sentiment comment =
     select_severity (sentiment_final_scores comment)
       (snd (apply_modifiers (lower comment)
               (calculate_severity_scores (lower comment) initial_details) initial_details))"
  by (simp add: analyze_sentiment_def sentiment_final_scores_def Let_def split_beta)

lemma classify_comment_selects:
  "classify_comment comment code_snippet =
     select_category (category_final_scores comment code_snippet) (lower comment)"
  by (simp add: classify_comment_def)

lemma detect_language_selects:
  "strip code \<noteq> [] \<Longrightarrow>
   detect_language code filename = select_language (language_final_scores code filename)"
  by (auto simp: detect_language_def strip_def)

text \<open>
  The score maps the three scoring passes build have their labels in table order, which is
  what the selection lemmas ask of a score map.
\<close>

lemma sentiment_keys_in_table_order:
  "\<exists>Q. map fst (sentiment_final_scores comment) = filter Q (map fst severity_patterns)"
proof -
  have "distinct (map fst severity_patterns)" by (simp add: severity_patterns_def)
  then have "map fst (sentiment_final_scores comment)
      = filter (\<lambda>k. case map_of severity_patterns k of
                       Some cfg \<Rightarrow> 0 < severity_raw_score cfg (lower comment)
                     | None \<Rightarrow> False) (map fst severity_patterns)"
    using map_fst_filter_keys [of severity_patterns
            "\<lambda>k cfg. 0 < severity_raw_score cfg (lower comment)"]
    by (simp add: sentiment_final_scores_def apply_modifiers_keys severity_scores_closed
          case_prod_beta comp_def)
  then show ?thesis by blast
qed

lemma apply_code_context_keys: "map fst (apply_code_context scores cl) = map fst scores"
proof -
  have "map fst (foldl (\<lambda>category_scores (category, hints).
              case map_of category_scores category of
                None \<Rightarrow> category_scores
              | Some v \<Rightarrow>
                  let hint_matches = length (filter (\<lambda>hint. py_in hint cl) hints) in
                  if hint_matches > 0
                  then let boost_factor = 1 + of_nat hint_matches * (1 / 10)
                       in AList.update category (v * boost_factor) category_scores
                  else category_scores) scores hs) = map fst scores" for hs
  proof (induction hs arbitrary: scores)
    case Nil
    then show ?case by simp
  next
    case (Cons h hs)
    obtain category hints where h: "h = (category, hints)" by (cases h)
    show ?case
    proof (cases "map_of scores category")
      case None
      with Cons.IH [of scores] h show ?thesis by simp
    next
      case (Some v)
      then have "category \<in> set (map fst scores)"
        by (metis map_of_SomeD image_eqI fst_conv list.set_map)
      then have "map fst (AList.update category w scores) = map fst scores" for w
        by (simp add: update_keys)
      with Cons.IH Some h show ?thesis by (simp add: Let_def)
    qed
  qed
  then show ?thesis by (simp add: apply_code_context_def)
qed

lemma category_keys_in_table_order:
  "\<exists>Q. map fst (category_final_scores comment code) = filter Q (map fst category_patterns)"
proof -
  have "map fst (category_final_scores comment code)
          = map fst (calculate_category_scores (lower comment))"
    by (simp add: category_final_scores_def Let_def apply_code_context_keys split: option.split)
  moreover have "distinct (map fst category_patterns)" by (simp add: category_patterns_def)
  ultimately have "map fst (category_final_scores comment code)
      = filter (\<lambda>k. case map_of category_patterns k of
                       Some cfg \<Rightarrow> 0 < category_context_score k cfg (lower comment)
                     | None \<Rightarrow> False) (map fst category_patterns)"
    using map_fst_filter_keys [of category_patterns
            "\<lambda>k cfg. 0 < category_context_score k cfg (lower comment)"]
    by (simp add: category_scores_closed case_prod_beta comp_def)
  then show ?thesis by blast
qed

lemma language_final_keys: "map fst (language_final_scores code fn) = map fst language_patterns"
proof -
  have a: "map fst (analyze_patterns code) = map fst language_patterns"
    by (simp add: language_scores_closed case_prod_beta comp_def)
  have "map fst (AList.update l w (analyze_patterns code)) = map fst (analyze_patterns code)"
    if "map_of (analyze_patterns code) l = Some v" for l v w
  proof -
    from that have "l \<in> set (map fst (analyze_patterns code))"
      by (metis map_of_SomeD image_eqI fst_conv list.set_map)
    then show ?thesis by (simp add: update_keys)
  qed
  with a show ?thesis
    by (simp add: language_final_scores_def Let_def split: option.split)
qed

lemma language_keys_in_table_order:
  "map fst (language_final_scores code fn) = filter (\<lambda>k. True) (map fst language_patterns)"
  by (simp add: language_final_keys)




section \<open>Generation fallback\<close>

text \<open>
  C9. Whenever the generation service raises, \<open>generate_empathetic_response\<close> returns the
  comment record with its severity, category and impact level as classification left them,
  the four generated-text fields set to the fixed fallback strings, and confidence 0.3,
  whatever the classification confidence was.
\<close>

theorem fallback_on_service_error:
  assumes "chat_completion self (create_empathy_prompt self code_snippet comment language)
             config world = (Inl e, world')"
  shows "generate_empathetic_response self code_snippet comment language config world =
           (comment\<lparr>positive_rephrase := ''Great work! Here's an opportunity to enhance this further.'',
                    explanation := ''This improvement will enhance code quality and maintainability.'',
                    code_suggestion := ''// Enhanced code would go here'',
                    learning_objective := ''Focus on continuous improvement and best practices.'',
                    confidence := 3 / 10\<rparr>, world')
         \<and> severity (fst (generate_empathetic_response self code_snippet comment language config world))
             = severity comment
         \<and> category (fst (generate_empathetic_response self code_snippet comment language config world))
             = category comment
         \<and> impact_level (fst (generate_empathetic_response self code_snippet comment language config world))
             = impact_level comment
         \<and> confidence (fst (generate_empathetic_response self code_snippet comment language config world))
             = 3 / 10"
  using assms by (simp add: generate_empathetic_response_def fallback_response_def)

theorem fallback_on_service_error_witness:
  "chat_completion unreachable_service
     (create_empathy_prompt unreachable_service ''x = 1'' classified_comment ''python'')
     default_processing_config 0 = (Inl (ServiceError ''timeout''), 1)
   \<and> confidence classified_comment = 9 / 10
   \<and> confidence (fst (generate_empathetic_response unreachable_service ''x = 1'' classified_comment
                         ''python'' default_processing_config 0)) = 3 / 10
   \<and> severity (fst (generate_empathetic_response unreachable_service ''x = 1'' classified_comment
                         ''python'' default_processing_config 0)) = SeverityLevel.CRITICAL"
proof -
  have h: "chat_completion unreachable_service
     (create_empathy_prompt unreachable_service ''x = 1'' classified_comment ''python'')
     default_processing_config 0 = (Inl (ServiceError ''timeout''), 1)"
    by (simp add: unreachable_service_def)
  from fallback_on_service_error [OF h] h show ?thesis
    by (simp add: classified_comment_def)
qed

text \<open>
  Seen from \<open>_analyze_comment\<close>: when the service raises on every prompt, the record keeps
  the severity, category and impact level of the two classifiers, and its confidence is 0.3
  whatever \<open>min(sev_confidence, cat_confidence)\<close> was.
\<close>

lemma analyze_comment_on_service_error:
  assumes "analyze_sentiment text = Inr (sev, sev_conf, sentiment_details)"
    and "classify_comment text (Some code_snippet) = Inr (cat, cat_conf, impact)"
    and "\<And>prompt. \<exists>e w. chat_completion self prompt (processing self) world = (Inl e, w)"
  shows "\<exists>c w. analyze_comment self text code_snippet language world = (Inr c, w)
           \<and> original c = text \<and> severity c = sev \<and> category c = cat
           \<and> impact_level c = impact \<and> confidence c = 3 / 10
           \<and> positive_rephrase c = ''Great work! Here's an opportunity to enhance this further.''"
proof -
  let ?c0 = "\<lparr>original = text, severity = sev, category = cat, impact_level = impact,
              confidence = min sev_conf cat_conf,
              positive_rephrase = [], explanation = [], code_suggestion = [],
              learning_objective = [], resources = []\<rparr>"
  from assms(3) obtain e w where
    "chat_completion self (create_empathy_prompt self code_snippet ?c0 language)
       (processing self) world = (Inl e, w)"
    by blast
  then have "generate_empathetic_response self code_snippet ?c0 language (processing self) world
               = (fallback_response ?c0, w)"
    by (simp add: generate_empathetic_response_def)
  with assms(1,2) show ?thesis
    by (simp add: analyze_comment_def fallback_response_def)
qed

section \<open>Input validation\<close>

lemma validate_comments_bad:
  "list_ex (\<lambda>c. \<forall>s. c = PyStr s \<longrightarrow> strip s = []) comments \<Longrightarrow>
   \<exists>j. validate_comments i comments = Inl (comment_error j)"
proof (induction comments arbitrary: i)
  case Nil
  then show ?case by simp
next
  case (Cons c rest)
  show ?case
  proof (cases c)
    case (PyStr s)
    show ?thesis
    proof (cases "strip s = []")
      case True
      with PyStr show ?thesis by auto
    next
      case False
      with PyStr Cons.prems have "list_ex (\<lambda>c. \<forall>s. c = PyStr s \<longrightarrow> strip s = []) rest"
        by simp
      from Cons.IH [OF this, of "Suc i"] PyStr False show ?thesis by simp
    qed
  qed auto
qed

text \<open>
  C10. \<open>process_review\<close> raises a \<open>ValueError\<close>, with the outside world untouched (no
  comment has been classified and the generation service has not been called), whenever
  the code snippet is not a non-empty string, the list of review comments is empty or
  holds an entry that is not a string or is whitespace only, or the list is longer than
  \<open>max_comments\<close>, which is 10 by default.
\<close>

theorem process_review_rejects:
  assumes "map_of items ''code_snippet'' = Some code"
    and "map_of items ''review_comments'' = Some (PyList comments)"
    and "(\<forall>s. code = PyStr s \<longrightarrow> s = [])
         \<or> comments = []
         \<or> (\<exists>c \<in> set comments. \<forall>s. c = PyStr s \<longrightarrow> strip s = [])
         \<or> int (length comments) > max_comments (processing self)"
  shows "(\<exists>msg. process_review self (PyDict items) world = (Inl (ValueError msg), world))
         \<and> max_comments default_processing_config = 10"
proof -
  have "\<exists>msg. validate_input self (PyDict items) = Inl (ValueError msg)"
  proof (cases "case code of PyStr s \<Rightarrow> strip s = [] | _ \<Rightarrow> True")
    case True
    with assms(1,2) show ?thesis by (simp add: validate_input_def)
  next
    case code_ok: False
    then obtain s where s: "code = PyStr s" "strip s \<noteq> []"
      by (cases code) auto
    then have "s \<noteq> []" by (auto simp: strip_def)
    with s assms(3) consider "comments = []"
      | "comments \<noteq> []" "int (length comments) > max_comments (processing self)"
      | "comments \<noteq> []" "\<not> int (length comments) > max_comments (processing self)"
        "\<exists>c \<in> set comments. \<forall>s. c = PyStr s \<longrightarrow> strip s = []"
      by auto
    then show ?thesis
    proof cases
      case 1
      with assms(1,2) s show ?thesis by (simp add: validate_input_def)
    next
      case 2
      with assms(1,2) s show ?thesis by (simp add: validate_input_def)
    next
      case 3
      then have "list_ex (\<lambda>c. \<forall>s. c = PyStr s \<longrightarrow> strip s = []) comments"
        by (simp add: list_ex_iff)
      from validate_comments_bad [OF this, of 0] obtain j
        where "validate_comments 0 comments = Inl (comment_error j)" ..
      with 3 assms(1,2) s show ?thesis by (simp add: validate_input_def comment_error_def)
    qed
  qed
  then show ?thesis
    by (auto simp: process_review_def default_processing_config_def)
qed

theorem process_review_rejects_witness:
  "process_review unreachable_service eleven_comments 0
     = (Inl (ValueError ''Maximum 10 comments allowed''), 0)
   \<and> process_review unreachable_service blank_second_comment 0
     = (Inl (ValueError ''Comment 2 must be a non-empty string''), 0)"
proof -
  have a: "process_review unreachable_service eleven_comments 0
             = (Inl (ValueError ''Maximum 10 comments allowed''), 0)"
    by code_simp
  have b: "process_review unreachable_service blank_second_comment 0
             = (Inl (ValueError ''Comment 2 must be a non-empty string''), 0)"
    by code_simp
  have "int (length (replicate 11 (PyStr ''fix this'')))
          > max_comments (processing unreachable_service)"
    by (simp add: unreachable_service_def default_processing_config_def)
  then have "\<exists>msg. process_review unreachable_service
                 (PyDict [(''code_snippet'', PyStr ''x = 1''),
                          (''review_comments'', PyList (replicate 11 (PyStr ''fix this'')))]) 0
               = (Inl (ValueError msg), 0)"
    using process_review_rejects
            [of "[(''code_snippet'', PyStr ''x = 1''),
                  (''review_comments'', PyList (replicate 11 (PyStr ''fix this'')))]"
                "PyStr ''x = 1''" "replicate 11 (PyStr ''fix this'')" unreachable_service 0]
    by simp
  with a b show ?thesis by simp
qed

end
